theory Spec2Isabelle
  imports Main "HOL-Library.AList"
begin

section \<open>Values\<close>

datatype val = VNull | VInt int | VText string

datatype py = PyNone | PyInt int | PyStr string | PyList "string list" | PyTuple "string list"

datatype value_error = Arity | Unsupported | Unpack | NulCharacter

datatype error = ValueError value_error | TypeError | AttributeError | OverflowError
  | OperationalError | IntegrityError | ProgrammingError | InterfaceError | Unmodelled

abbreviation nl :: string where "nl \<equiv> [CHR 0x0A]"

abbreviation apostrophe :: string where "apostrophe \<equiv> [CHR 0x27]"

section \<open>Lexer\<close>

datatype token = TIdent string | TQuoted string | TStr string | TNum string | TParam string
  | TLParen | TRParen | TComma | TSemi | TEq | TDot | TStar | TIllegal

datatype lex_state = Start | InIdent string | InNum string | InParam string
  | InBracket string | InStr string | InStrQ string

datatype char_class = Space | Digit | Upper | Lower | Quote | Punct token
  | LBracket | RBracket | Colon | Other

definition classify :: "char \<Rightarrow> char_class" where
  "classify c =
    (let n = (of_char c :: nat) in
     if n = 32 \<or> n = 10 \<or> n = 9 \<or> n = 13 \<or> n = 12 then Space
     else if 97 \<le> n \<and> n \<le> 122 \<or> n = 95 then Lower
     else if 65 \<le> n \<and> n \<le> 90 then Upper
     else if 48 \<le> n \<and> n \<le> 57 then Digit
     else if n = 39 then Quote
     else if n = 40 then Punct TLParen
     else if n = 41 then Punct TRParen
     else if n = 44 then Punct TComma
     else if n = 59 then Punct TSemi
     else if n = 61 then Punct TEq
     else if n = 46 then Punct TDot
     else if n = 42 then Punct TStar
     else if n = 91 then LBracket
     else if n = 93 then RBracket
     else if n = 58 then Colon
     else Other)"

fun set_bit5 :: "char \<Rightarrow> char" where
  "set_bit5 (Char b0 b1 b2 b3 b4 b5 b6 b7) = Char b0 b1 b2 b3 b4 True b6 b7"

definition lower :: "char \<Rightarrow> char" where
  "lower c = (if classify c = Upper then set_bit5 c else c)"

definition word_class :: "char_class \<Rightarrow> bool" where
  "word_class k \<longleftrightarrow> k = Lower \<or> k = Upper \<or> k = Digit"

fun flush :: "lex_state \<Rightarrow> token list" where
  "flush Start = []"
| "flush (InIdent a) = [TIdent a]"
| "flush (InNum a) = [TNum a]"
| "flush (InParam a) = [if a = [] then TIllegal else TParam a]"
| "flush (InBracket a) = [TIllegal]"
| "flush (InStr a) = [TIllegal]"
| "flush (InStrQ a) = [TStr a]"

fun start :: "char \<Rightarrow> char_class \<Rightarrow> token list \<times> lex_state" where
  "start c Space = ([], Start)"
| "start c (Punct t) = ([t], Start)"
| "start c Quote = ([], InStr [])"
| "start c LBracket = ([], InBracket [])"
| "start c Colon = ([], InParam [])"
| "start c Digit = ([], InNum [c])"
| "start c Lower = ([], InIdent [c])"
| "start c Upper = ([], InIdent [lower c])"
| "start c RBracket = ([TIllegal], Start)"
| "start c Other = ([TIllegal], Start)"

fun emit :: "token list \<Rightarrow> token list \<times> lex_state \<Rightarrow> token list \<times> lex_state" where
  "emit ts (us, s) = (ts @ us, s)"

fun step :: "lex_state \<Rightarrow> char \<Rightarrow> char_class \<Rightarrow> token list \<times> lex_state" where
  "step Start c k = start c k"
| "step (InIdent a) c k =
    (if word_class k then ([], InIdent (a @ [lower c])) else emit [TIdent a] (start c k))"
| "step (InNum a) c k =
    (if k = Digit then ([], InNum (a @ [c]))
     else if word_class k then ([TIllegal], Start)
     else emit [TNum a] (start c k))"
| "step (InParam a) c k =
    (if word_class k then ([], InParam (a @ [c])) else emit (flush (InParam a)) (start c k))"
| "step (InBracket a) c k =
    (if k = RBracket then ([TQuoted (map lower a)], Start) else ([], InBracket (a @ [c])))"
| "step (InStr a) c k =
    (if k = Quote then ([], InStrQ a) else ([], InStr (a @ [c])))"
| "step (InStrQ a) c k =
    (if k = Quote then ([], InStr (a @ [c])) else emit [TStr a] (start c k))"

fun lex_step :: "token list \<times> lex_state \<Rightarrow> char \<Rightarrow> token list \<times> lex_state" where
  "lex_step (out, s) c = emit out (step s c (classify c))"

fun finish :: "token list \<times> lex_state \<Rightarrow> token list" where
  "finish (out, s) = out @ flush s"

definition tokens :: "string \<Rightarrow> token list" where
  "tokens text = finish (foldl lex_step ([], Start) text)"

definition nat_of_digits :: "string \<Rightarrow> nat" where
  "nat_of_digits ds = foldl (\<lambda>a c. 10 * a + (of_char c - 48)) 0 ds"

section \<open>Parser\<close>

type_synonym colref = "string option \<times> string"

datatype operand = Lit val | Param string | Col colref

datatype atom = Eq colref operand | In colref "operand list"

type_synonym cond = "atom list list"

datatype columns = Star | Cols "colref list"

datatype stmt =
    Insert string "string list" "operand list"
  | Delete string cond
  | Select columns "string \<times> string" "((string \<times> string) \<times> colref \<times> colref) list"
      cond "colref option" "(colref \<times> nat) option"

type_synonym 'a parser = "token list \<Rightarrow> ('a \<times> token list) option"

definition reserved_words :: "string list" where
  "reserved_words = [''select'', ''from'', ''where'', ''join'', ''on'', ''and'', ''or'', ''in'',
     ''group'', ''by'', ''having'', ''distinct'', ''insert'', ''into'', ''values'', ''delete'',
     ''update'', ''set'', ''order'', ''limit'', ''not'', ''null'', ''is'', ''as'', ''union'',
     ''create'', ''drop'', ''table'', ''index'', ''case'', ''when'', ''then'', ''else'',
     ''exists'', ''between'', ''like'', ''all'', ''using'', ''unique'', ''primary'',
     ''references'', ''foreign'', ''constraint'', ''default'', ''check'', ''collate'',
     ''transaction'', ''commit'', ''to'']"

fun name :: "string parser" where
  "name (TIdent n # ts) = (if n \<in> set reserved_words then None else Some (n, ts))"
| "name (TQuoted n # ts) = Some (n, ts)"
| "name _ = None"

fun kw :: "string \<Rightarrow> token list \<Rightarrow> token list option" where
  "kw k (TIdent n # ts) = (if n = k then Some ts else None)"
| "kw k _ = None"

fun sym :: "token \<Rightarrow> token list \<Rightarrow> token list option" where
  "sym t (u # ts) = (if u = t then Some ts else None)"
| "sym t [] = None"

function sep1 :: "'a parser \<Rightarrow> token \<Rightarrow> 'a list parser" where
  "sep1 p s ts =
    (case p ts of
       None \<Rightarrow> None
     | Some (x, r) \<Rightarrow>
        (case r of
           [] \<Rightarrow> Some ([x], r)
         | t # r' \<Rightarrow>
            if t = s \<and> length r' < length ts
            then (case sep1 p s r' of None \<Rightarrow> None | Some (xs, r'') \<Rightarrow> Some (x # xs, r''))
            else Some ([x], r)))"
  by pat_completeness auto
termination
  by (relation "measure (\<lambda>(p, s, ts). length ts)") auto

declare sep1.simps [simp del]

function many :: "'a parser \<Rightarrow> 'a list parser" where
  "many p ts =
    (case p ts of
       None \<Rightarrow> Some ([], ts)
     | Some (x, r) \<Rightarrow>
        if length r < length ts
        then (case many p r of None \<Rightarrow> None | Some (xs, r') \<Rightarrow> Some (x # xs, r'))
        else None)"
  by pat_completeness auto
termination
  by (relation "measure (\<lambda>(p, ts). length ts)") auto

declare many.simps [simp del]

definition colref :: "colref parser" where
  "colref ts =
    (case name ts of
       None \<Rightarrow> None
     | Some (a, r) \<Rightarrow>
        (case r of
           TDot # r' \<Rightarrow> (case name r' of None \<Rightarrow> None | Some (c, r'') \<Rightarrow> Some ((Some a, c), r''))
         | _ \<Rightarrow> Some ((None, a), r)))"

definition operand :: "operand parser" where
  "operand ts =
    (case ts of
       TStr s # r \<Rightarrow> Some (Lit (VText s), r)
     | TNum d # r \<Rightarrow> Some (Lit (VInt (int (nat_of_digits d))), r)
     | TParam p # r \<Rightarrow> Some (Param p, r)
     | _ \<Rightarrow> (case colref ts of None \<Rightarrow> None | Some (c, r) \<Rightarrow> Some (Col c, r)))"

definition in_list :: "operand list parser" where
  "in_list ts =
    (case ts of
       TRParen # r \<Rightarrow> Some ([], r)
     | _ \<Rightarrow> (case sep1 operand TComma ts of
               Some (xs, TRParen # r) \<Rightarrow> Some (xs, r)
             | _ \<Rightarrow> None))"

definition atom :: "atom parser" where
  "atom ts =
    (case colref ts of
       None \<Rightarrow> None
     | Some (c, r) \<Rightarrow>
        (case r of
           TEq # r' \<Rightarrow> (case operand r' of None \<Rightarrow> None | Some (x, r'') \<Rightarrow> Some (Eq c x, r''))
         | TIdent k # TLParen # r' \<Rightarrow>
            if k = ''in''
            then (case in_list r' of None \<Rightarrow> None | Some (xs, r'') \<Rightarrow> Some (In c xs, r''))
            else None
         | _ \<Rightarrow> None))"

definition clause :: "atom list parser" where
  "clause ts =
    (case ts of
       TLParen # r \<Rightarrow>
        (case sep1 atom (TIdent ''or'') r of
           Some (as, TRParen # r') \<Rightarrow> Some (as, r')
         | _ \<Rightarrow> None)
     | _ \<Rightarrow> (case atom ts of None \<Rightarrow> None | Some (a, r) \<Rightarrow> Some ([a], r)))"

definition where_clause :: "cond parser" where
  "where_clause ts =
    (case ts of
       TIdent k # r \<Rightarrow> if k = ''where'' then sep1 clause (TIdent ''and'') r else Some ([], ts)
     | _ \<Rightarrow> Some ([], ts))"

definition table_alias :: "(string \<times> string) parser" where
  "table_alias ts =
    (case name ts of
       None \<Rightarrow> None
     | Some (t, r) \<Rightarrow> (case name r of None \<Rightarrow> Some ((t, t), r) | Some (a, r') \<Rightarrow> Some ((t, a), r')))"

definition join_clause :: "((string \<times> string) \<times> colref \<times> colref) parser" where
  "join_clause ts =
    (case kw ''join'' ts of
       None \<Rightarrow> None
     | Some r \<Rightarrow>
        (case table_alias r of
           None \<Rightarrow> None
         | Some (ta, r1) \<Rightarrow>
            (case kw ''on'' r1 of
               None \<Rightarrow> None
             | Some r2 \<Rightarrow>
                (case colref r2 of
                   Some (a, TEq # r3) \<Rightarrow>
                    (case colref r3 of None \<Rightarrow> None | Some (b, r4) \<Rightarrow> Some ((ta, a, b), r4))
                 | _ \<Rightarrow> None))))"

definition group_by :: "colref option parser" where
  "group_by ts =
    (case ts of
       TIdent g # TIdent b # r \<Rightarrow>
        if g = ''group'' \<and> b = ''by''
        then (case colref r of None \<Rightarrow> None | Some (c, r') \<Rightarrow> Some (Some c, r'))
        else Some (None, ts)
     | _ \<Rightarrow> Some (None, ts))"

definition having :: "(colref \<times> nat) option parser" where
  "having ts =
    (case ts of
       TIdent h # TIdent cnt # TLParen # TIdent d # r \<Rightarrow>
        if h = ''having'' \<and> cnt = ''count'' \<and> d = ''distinct''
        then (case colref r of
                Some (c, TRParen # TEq # TNum n # r') \<Rightarrow> Some (Some (c, nat_of_digits n), r')
              | _ \<Rightarrow> None)
        else Some (None, ts)
     | _ \<Rightarrow> Some (None, ts))"

definition select_columns :: "columns parser" where
  "select_columns ts =
    (case ts of
       TStar # r \<Rightarrow> Some (Star, r)
     | _ \<Rightarrow> (case sep1 colref TComma ts of None \<Rightarrow> None | Some (cs, r) \<Rightarrow> Some (Cols cs, r)))"

definition select_stmt :: "stmt parser" where
  "select_stmt ts =
    (case select_columns ts of None \<Rightarrow> None | Some (cs, r1) \<Rightarrow>
     (case kw ''from'' r1 of None \<Rightarrow> None | Some r2 \<Rightarrow>
      (case table_alias r2 of None \<Rightarrow> None | Some (ta, r3) \<Rightarrow>
       (case many join_clause r3 of None \<Rightarrow> None | Some (js, r4) \<Rightarrow>
        (case where_clause r4 of None \<Rightarrow> None | Some (w, r5) \<Rightarrow>
         (case group_by r5 of None \<Rightarrow> None | Some (g, r6) \<Rightarrow>
          (case having r6 of None \<Rightarrow> None | Some (h, r7) \<Rightarrow>
            if h \<noteq> None \<and> g = None then None else Some (Select cs ta js w g h, r7))))))))"

definition insert_stmt :: "stmt parser" where
  "insert_stmt ts =
    (case kw ''into'' ts of None \<Rightarrow> None | Some r1 \<Rightarrow>
     (case name r1 of None \<Rightarrow> None | Some (t, r2) \<Rightarrow>
      (case sym TLParen r2 of None \<Rightarrow> None | Some r3 \<Rightarrow>
       (case sep1 name TComma r3 of
          Some (cs, TRParen # TIdent v # TLParen # r4) \<Rightarrow>
           if v = ''values''
           then (case sep1 operand TComma r4 of
                   Some (xs, TRParen # r5) \<Rightarrow> Some (Insert t cs xs, r5)
                 | _ \<Rightarrow> None)
           else None
        | _ \<Rightarrow> None))))"

definition delete_stmt :: "stmt parser" where
  "delete_stmt ts =
    (case kw ''from'' ts of None \<Rightarrow> None | Some r1 \<Rightarrow>
     (case name r1 of None \<Rightarrow> None | Some (t, r2) \<Rightarrow>
      (case where_clause r2 of None \<Rightarrow> None | Some (w, r3) \<Rightarrow> Some (Delete t w, r3))))"

definition statement :: "stmt parser" where
  "statement ts =
    (case ts of
       TIdent k # r \<Rightarrow>
        if k = ''select'' then select_stmt r
        else if k = ''insert'' then insert_stmt r
        else if k = ''delete'' then delete_stmt r
        else None
     | _ \<Rightarrow> None)"

definition parse :: "string \<Rightarrow> stmt option" where
  "parse text =
    (case statement (tokens text) of
       Some (st, r) \<Rightarrow> if r = [] \<or> r = [TSemi] then Some st else None
     | None \<Rightarrow> None)"


section \<open>Tables\<close>

record column =
  cname :: string
  not_null :: bool
  is_unique :: bool
  primary_key :: bool
  references :: "(string \<times> string) option"

record table =
  cols :: "column list"
  autoincrement :: bool
  seq :: int
  rows :: "val list list"

type_synonym database = "(string \<times> table) list"

type_synonym scope = "(string \<times> string list) list"

type_synonym env = "val list list"

definition col_names :: "table \<Rightarrow> string list" where
  "col_names T = map cname (cols T)"

fun index_of :: "'a \<Rightarrow> 'a list \<Rightarrow> nat option" where
  "index_of x [] = None"
| "index_of x (y # ys) = (if x = y then Some 0 else map_option Suc (index_of x ys))"

definition cell :: "val list \<Rightarrow> nat \<Rightarrow> val" where
  "cell r j = (if j < length r then r ! j else VNull)"

definition env_row :: "env \<Rightarrow> nat \<Rightarrow> val list" where
  "env_row e i = (if i < length e then e ! i else [])"

fun find_col :: "scope \<Rightarrow> colref \<Rightarrow> (nat \<times> nat) option" where
  "find_col sc (Some a, c) =
    (case index_of a (map fst sc) of
       None \<Rightarrow> None
     | Some i \<Rightarrow> map_option (Pair i) (index_of c (snd (sc ! i))))"
| "find_col sc (None, c) =
    (case filter (\<lambda>i. index_of c (snd (sc ! i)) \<noteq> None) [0..<length sc] of
       [i] \<Rightarrow> map_option (Pair i) (index_of c (snd (sc ! i)))
     | _ \<Rightarrow> None)"

definition at :: "scope \<Rightarrow> env \<Rightarrow> colref \<Rightarrow> val" where
  "at sc e c = (case find_col sc c of Some (i, j) \<Rightarrow> cell (env_row e i) j | None \<Rightarrow> VNull)"

fun operand_val :: "scope \<Rightarrow> env \<Rightarrow> operand \<Rightarrow> val" where
  "operand_val sc e (Lit v) = v"
| "operand_val sc e (Param p) = VNull"
| "operand_val sc e (Col c) = at sc e c"

definition sql_eq :: "val \<Rightarrow> val \<Rightarrow> bool" where
  "sql_eq a b \<longleftrightarrow> a \<noteq> VNull \<and> b \<noteq> VNull \<and> a = b"

fun atom_true :: "scope \<Rightarrow> env \<Rightarrow> atom \<Rightarrow> bool" where
  "atom_true sc e (Eq c x) = sql_eq (at sc e c) (operand_val sc e x)"
| "atom_true sc e (In c xs) = list_ex (\<lambda>x. sql_eq (at sc e c) (operand_val sc e x)) xs"

definition cond_true :: "scope \<Rightarrow> cond \<Rightarrow> env \<Rightarrow> bool" where
  "cond_true sc w e = list_all (list_ex (atom_true sc e)) w"

subsection \<open>Name resolution\<close>

fun operand_ok :: "scope \<Rightarrow> operand \<Rightarrow> bool" where
  "operand_ok sc (Col c) = (find_col sc c \<noteq> None)"
| "operand_ok sc _ = True"

fun atom_ok :: "scope \<Rightarrow> atom \<Rightarrow> bool" where
  "atom_ok sc (Eq c x) = (find_col sc c \<noteq> None \<and> operand_ok sc x)"
| "atom_ok sc (In c xs) = (find_col sc c \<noteq> None \<and> list_all (operand_ok sc) xs)"

definition cond_ok :: "scope \<Rightarrow> cond \<Rightarrow> bool" where
  "cond_ok sc w = list_all (list_all (atom_ok sc)) w"

fun join_scope :: "database \<Rightarrow> scope \<Rightarrow> ((string \<times> string) \<times> colref \<times> colref) list
    \<Rightarrow> scope option" where
  "join_scope db sc [] = Some sc"
| "join_scope db sc (((t, a), l, r) # js) =
    (case map_of db t of
       None \<Rightarrow> None
     | Some T \<Rightarrow>
        if find_col (sc @ [(a, col_names T)]) l \<noteq> None \<and>
           find_col (sc @ [(a, col_names T)]) r \<noteq> None
        then join_scope db (sc @ [(a, col_names T)]) js
        else None)"

fun columns_ok :: "scope \<Rightarrow> columns \<Rightarrow> bool" where
  "columns_ok sc Star = True"
| "columns_ok sc (Cols cs) = list_all (\<lambda>c. find_col sc c \<noteq> None) cs"

fun resolves :: "database \<Rightarrow> stmt \<Rightarrow> bool" where
  "resolves db (Insert t cs xs) =
    (case map_of db t of
       None \<Rightarrow> False
     | Some T \<Rightarrow> list_all (\<lambda>c. c \<in> set (col_names T)) cs \<and> distinct cs \<and>
         length xs = length cs \<and> list_all (operand_ok []) xs)"
| "resolves db (Delete t w) =
    (case map_of db t of None \<Rightarrow> False | Some T \<Rightarrow> cond_ok [(t, col_names T)] w)"
| "resolves db (Select cs (t, a) js w g h) =
    (case map_of db t of
       None \<Rightarrow> False
     | Some T \<Rightarrow>
        (case join_scope db [(a, col_names T)] js of
           None \<Rightarrow> False
         | Some sc \<Rightarrow> columns_ok sc cs \<and> cond_ok sc w \<and>
             (case g of None \<Rightarrow> True | Some k \<Rightarrow> find_col sc k \<noteq> None) \<and>
             (case h of None \<Rightarrow> True | Some (c, n) \<Rightarrow> find_col sc c \<noteq> None)))"

subsection \<open>Binding parameters\<close>

definition int64 :: "int \<Rightarrow> bool" where
  "int64 n \<longleftrightarrow> - (2 ^ 63) \<le> n \<and> n < 2 ^ 63"

fun bind_value :: "py \<Rightarrow> error + val" where
  "bind_value PyNone = Inr VNull"
| "bind_value (PyInt n) = (if int64 n then Inr (VInt n) else Inl OverflowError)"
| "bind_value (PyStr s) = Inr (VText s)"
| "bind_value (PyList xs) = Inl InterfaceError"
| "bind_value (PyTuple xs) = Inl InterfaceError"

fun bind_operand :: "(string \<times> py) list \<Rightarrow> operand \<Rightarrow> error + operand" where
  "bind_operand ps (Param p) =
    (case map_of ps p of
       None \<Rightarrow> Inl ProgrammingError
     | Some v \<Rightarrow> (case bind_value v of Inl e \<Rightarrow> Inl e | Inr x \<Rightarrow> Inr (Lit x)))"
| "bind_operand ps x = Inr x"

fun bind_operands :: "(string \<times> py) list \<Rightarrow> operand list \<Rightarrow> error + operand list" where
  "bind_operands ps [] = Inr []"
| "bind_operands ps (x # xs) =
    (case bind_operand ps x of
       Inl e \<Rightarrow> Inl e
     | Inr y \<Rightarrow> (case bind_operands ps xs of Inl e \<Rightarrow> Inl e | Inr ys \<Rightarrow> Inr (y # ys)))"

fun bind_atom :: "(string \<times> py) list \<Rightarrow> atom \<Rightarrow> error + atom" where
  "bind_atom ps (Eq c x) = (case bind_operand ps x of Inl e \<Rightarrow> Inl e | Inr y \<Rightarrow> Inr (Eq c y))"
| "bind_atom ps (In c xs) = (case bind_operands ps xs of Inl e \<Rightarrow> Inl e | Inr ys \<Rightarrow> Inr (In c ys))"

fun bind_clause :: "(string \<times> py) list \<Rightarrow> atom list \<Rightarrow> error + atom list" where
  "bind_clause ps [] = Inr []"
| "bind_clause ps (a # as) =
    (case bind_atom ps a of
       Inl e \<Rightarrow> Inl e
     | Inr b \<Rightarrow> (case bind_clause ps as of Inl e \<Rightarrow> Inl e | Inr bs \<Rightarrow> Inr (b # bs)))"

fun bind_cond :: "(string \<times> py) list \<Rightarrow> cond \<Rightarrow> error + cond" where
  "bind_cond ps [] = Inr []"
| "bind_cond ps (c # cs) =
    (case bind_clause ps c of
       Inl e \<Rightarrow> Inl e
     | Inr d \<Rightarrow> (case bind_cond ps cs of Inl e \<Rightarrow> Inl e | Inr ds \<Rightarrow> Inr (d # ds)))"

fun bind :: "(string \<times> py) list \<Rightarrow> stmt \<Rightarrow> error + stmt" where
  "bind ps (Insert t cs xs) =
    (case bind_operands ps xs of Inl e \<Rightarrow> Inl e | Inr ys \<Rightarrow> Inr (Insert t cs ys))"
| "bind ps (Delete t w) =
    (case bind_cond ps w of Inl e \<Rightarrow> Inl e | Inr v \<Rightarrow> Inr (Delete t v))"
| "bind ps (Select cs ta js w g h) =
    (case bind_cond ps w of Inl e \<Rightarrow> Inl e | Inr v \<Rightarrow> Inr (Select cs ta js v g h))"

subsection \<open>Running a statement\<close>

fun joined :: "database \<Rightarrow> scope \<Rightarrow> env \<Rightarrow> ((string \<times> string) \<times> colref \<times> colref) list
    \<Rightarrow> env list" where
  "joined db sc e [] = [e]"
| "joined db sc e (((t, a), l, r) # js) =
    (case map_of db t of
       None \<Rightarrow> []
     | Some T \<Rightarrow>
        concat (map (\<lambda>row. joined db (sc @ [(a, col_names T)]) (e @ [row]) js)
          (filter (\<lambda>row. sql_eq (at (sc @ [(a, col_names T)]) (e @ [row]) l)
                                (at (sc @ [(a, col_names T)]) (e @ [row]) r))
             (rows T))))"

fun project :: "scope \<Rightarrow> columns \<Rightarrow> env \<Rightarrow> val list" where
  "project sc Star e =
     concat (map (\<lambda>i. map (cell (env_row e i)) [0..<length (snd (sc ! i))]) [0..<length sc])"
| "project sc (Cols cs) e = map (at sc e) cs"

definition count_distinct :: "scope \<Rightarrow> colref \<Rightarrow> env list \<Rightarrow> nat" where
  "count_distinct sc c grp = length (remdups (filter (\<lambda>v. v \<noteq> VNull) (map (\<lambda>e. at sc e c) grp)))"

definition grouped :: "scope \<Rightarrow> colref \<Rightarrow> env list \<Rightarrow> env list list" where
  "grouped sc k es =
     map (\<lambda>v. filter (\<lambda>e. at sc e k = v) es) (remdups (map (\<lambda>e. at sc e k) es))"

definition run_select :: "database \<Rightarrow> columns \<Rightarrow> string \<times> string
    \<Rightarrow> ((string \<times> string) \<times> colref \<times> colref) list \<Rightarrow> cond \<Rightarrow> colref option
    \<Rightarrow> (colref \<times> nat) option \<Rightarrow> val list list" where
  "run_select db cs ta js w g h =
    (case map_of db (fst ta) of
       None \<Rightarrow> []
     | Some T \<Rightarrow>
        (case join_scope db [(snd ta, col_names T)] js of
           None \<Rightarrow> []
         | Some sc \<Rightarrow>
            (case g of
               None \<Rightarrow>
                map (project sc cs)
                  (filter (cond_true sc w)
                     (concat (map (\<lambda>r. joined db [(snd ta, col_names T)] [r] js) (rows T))))
             | Some k \<Rightarrow>
                map (\<lambda>grp. project sc cs (last grp))
                  (filter (\<lambda>grp. case h of None \<Rightarrow> True
                                   | Some (c, n) \<Rightarrow> count_distinct sc c grp = n)
                     (grouped sc k
                        (filter (cond_true sc w)
                           (concat (map (\<lambda>r. joined db [(snd ta, col_names T)] [r] js)
                              (rows T)))))))))"

definition rowids :: "table \<Rightarrow> int list" where
  "rowids T =
    (case index_of True (map primary_key (cols T)) of
       None \<Rightarrow> []
     | Some j \<Rightarrow> concat (map (\<lambda>r. case cell r j of VInt n \<Rightarrow> [n] | _ \<Rightarrow> []) (rows T)))"

definition next_rowid :: "table \<Rightarrow> int" where
  "next_rowid T = (if autoincrement T then max (seq T) (fold max (rowids T) 0) else fold max (rowids T) 0) + 1"

definition new_row :: "table \<Rightarrow> string list \<Rightarrow> val list \<Rightarrow> val list" where
  "new_row T cs vs =
     map (\<lambda>c. case map_of (zip cs vs) (cname c) of
                 Some v \<Rightarrow> if v = VNull \<and> primary_key c then VInt (next_rowid T) else v
               | None \<Rightarrow> if primary_key c then VInt (next_rowid T) else VNull)
       (cols T)"

definition column_violated :: "bool \<Rightarrow> database \<Rightarrow> table \<Rightarrow> val list \<Rightarrow> nat \<Rightarrow> bool" where
  "column_violated fk db T r j =
    (let c = cols T ! j; v = cell r j in
      (not_null c \<and> v = VNull) \<or>
      (primary_key c \<and> (case v of VInt n \<Rightarrow> False | _ \<Rightarrow> True)) \<or>
      ((is_unique c \<or> primary_key c) \<and> v \<noteq> VNull \<and> list_ex (\<lambda>r'. cell r' j = v) (rows T)) \<or>
      (fk \<and> v \<noteq> VNull \<and>
        (case references c of
           None \<Rightarrow> False
         | Some (pt, pc) \<Rightarrow>
            (case map_of db pt of
               None \<Rightarrow> True
             | Some P \<Rightarrow>
                (case index_of pc (col_names P) of
                   None \<Rightarrow> True
                 | Some k \<Rightarrow> \<not> list_ex (\<lambda>p. cell p k = v) (rows P))))))"

definition run_insert :: "bool \<Rightarrow> database \<Rightarrow> string \<Rightarrow> string list \<Rightarrow> val list
    \<Rightarrow> error + database" where
  "run_insert fk db t cs vs =
    (case map_of db t of
       None \<Rightarrow> Inl OperationalError
     | Some T \<Rightarrow>
        let r = new_row T cs vs in
        if list_ex (column_violated fk db T r) [0..<length (cols T)] then Inl IntegrityError
        else Inr (AList.update t
               (T\<lparr>rows := rows T @ [r],
                  seq := (if autoincrement T then max (seq T) (fold max (rowids (T\<lparr>rows := [r]\<rparr>)) 0)
                          else seq T)\<rparr>) db))"

definition referenced :: "database \<Rightarrow> string \<Rightarrow> table \<Rightarrow> val list \<Rightarrow> bool" where
  "referenced db t T r =
     list_ex (\<lambda>(ct, C).
       list_ex (\<lambda>j.
         case references (cols C ! j) of
           None \<Rightarrow> False
         | Some (pt, pc) \<Rightarrow>
            pt = t \<and>
            (case index_of pc (col_names T) of
               None \<Rightarrow> False
             | Some k \<Rightarrow> cell r k \<noteq> VNull \<and> list_ex (\<lambda>cr. cell cr j = cell r k) (rows C)))
         [0..<length (cols C)]) db"

definition run_delete :: "bool \<Rightarrow> database \<Rightarrow> string \<Rightarrow> cond \<Rightarrow> error + database" where
  "run_delete fk db t w =
    (case map_of db t of
       None \<Rightarrow> Inl OperationalError
     | Some T \<Rightarrow>
        if fk \<and> list_ex (referenced db t T)
             (filter (\<lambda>r. cond_true [(t, col_names T)] w [r]) (rows T))
        then Inl IntegrityError
        else Inr (AList.update t
               (T\<lparr>rows := filter (\<lambda>r. \<not> cond_true [(t, col_names T)] w [r]) (rows T)\<rparr>) db))"

fun run :: "bool \<Rightarrow> database \<Rightarrow> stmt \<Rightarrow> error + (val list list \<times> database)" where
  "run fk db (Insert t cs xs) =
    (case run_insert fk db t cs (map (operand_val [] []) xs) of
       Inl e \<Rightarrow> Inl e
     | Inr db' \<Rightarrow> Inr ([], db'))"
| "run fk db (Delete t w) =
    (case run_delete fk db t w of Inl e \<Rightarrow> Inl e | Inr db' \<Rightarrow> Inr ([], db'))"
| "run fk db (Select cs ta js w g h) = Inr (run_select db cs ta js w g h, db)"

section \<open>Connections and the store\<close>

datatype store = File string | Private nat

record connection =
  target :: store
  closed :: bool
  foreign_keys :: bool

record world =
  db_name :: string
  stores :: "store \<Rightarrow> database"
  next_private :: nat
  trace :: "(string \<times> (string \<times> py) list list) list"

datatype result = RNone | RRow "val list" | RRows "val list list" | RStr string

type_synonym outcome = "(error + result) \<times> world"

type_synonym session = "world \<times> database"

definition sqlite3_connect :: "world \<Rightarrow> string \<Rightarrow> connection \<times> world" where
  "sqlite3_connect w p =
    (if p = [] \<or> p = '':memory:''
     then (\<lparr>target = Private (next_private w), closed = False, foreign_keys = False\<rparr>,
           w\<lparr>stores := (stores w)(Private (next_private w) := []),
             next_private := Suc (next_private w)\<rparr>)
     else (\<lparr>target = File p, closed = False, foreign_keys = False\<rparr>, w))"

definition connection :: "world \<Rightarrow> string \<Rightarrow> connection \<times> world" where
  "connection w db = sqlite3_connect w db"

definition logged :: "string \<Rightarrow> (string \<times> py) list list \<Rightarrow> world \<Rightarrow> world" where
  "logged q pss w = w\<lparr>trace := trace w @ [(q, pss)]\<rparr>"

definition cursor :: "connection \<Rightarrow> error + unit" where
  "cursor c = (if closed c then Inl ProgrammingError else Inr ())"

definition prepare :: "database \<Rightarrow> string \<Rightarrow> error + stmt" where
  "prepare db q =
    (if CHR 0x00 \<in> set q then Inl (ValueError NulCharacter)
     else case parse q of
       None \<Rightarrow> Inl OperationalError
     | Some st \<Rightarrow> if resolves db st then Inr st else Inl OperationalError)"

definition execute :: "connection \<Rightarrow> string \<Rightarrow> (string \<times> py) list \<Rightarrow> session
    \<Rightarrow> (error + val list list) \<times> session" where
  "execute c q ps s =
    (case s of (w, db) \<Rightarrow>
      (case prepare db q of
         Inl e \<Rightarrow> (Inl e, logged q [ps] w, db)
       | Inr st \<Rightarrow>
          (case bind ps st of
             Inl e \<Rightarrow> (Inl e, logged q [ps] w, db)
           | Inr st' \<Rightarrow>
              (case run (foreign_keys c) db st' of
                 Inl e \<Rightarrow> (Inl e, logged q [ps] w, db)
               | Inr (rs, db') \<Rightarrow> (Inr rs, logged q [ps] w, db')))))"

fun run_each :: "bool \<Rightarrow> stmt \<Rightarrow> (string \<times> py) list list \<Rightarrow> database \<Rightarrow> error + database" where
  "run_each fk st [] db = Inr db"
| "run_each fk st (ps # pss) db =
    (case bind ps st of
       Inl e \<Rightarrow> Inl e
     | Inr st' \<Rightarrow>
        (case run fk db st' of Inl e \<Rightarrow> Inl e | Inr (rs, db') \<Rightarrow> run_each fk st pss db'))"

fun is_select :: "stmt \<Rightarrow> bool" where
  "is_select (Select cs ta js w g h) = True"
| "is_select _ = False"

definition executemany :: "connection \<Rightarrow> string \<Rightarrow> (string \<times> py) list list \<Rightarrow> session
    \<Rightarrow> (error + val list list) \<times> session" where
  "executemany c q pss s =
    (case s of (w, db) \<Rightarrow>
      (case prepare db q of
         Inl e \<Rightarrow> (Inl e, logged q pss w, db)
       | Inr st \<Rightarrow>
          if is_select st then (Inl ProgrammingError, logged q pss w, db)
          else (case run_each (foreign_keys c) st pss db of
                  Inl e \<Rightarrow> (Inl e, logged q pss w, db)
                | Inr db' \<Rightarrow> (Inr [], logged q pss w, db'))))"

definition with_conn :: "world \<Rightarrow> connection \<Rightarrow> (session \<Rightarrow> (error + 'a) \<times> session)
    \<Rightarrow> (error + 'a) \<times> world" where
  "with_conn w c body =
    (case body (w, stores w (target c)) of
       (Inl e, w', db') \<Rightarrow> (Inl e, w')
     | (Inr r, w', db') \<Rightarrow> (Inr r, w'\<lparr>stores := (stores w')(target c := db')\<rparr>))"

definition reading :: "world \<Rightarrow> connection \<Rightarrow> (session \<Rightarrow> (error + 'a) \<times> session)
    \<Rightarrow> (error + 'a) \<times> world" where
  "reading w c body = (case body (w, stores w (target c)) of (r, w', db') \<Rightarrow> (r, w'))"

section \<open>The decorator\<close>

definition connection_methods :: "string list" where
  "connection_methods = [''cursor'', ''commit'', ''rollback'', ''close'', ''execute'',
     ''executemany'', ''executescript'', ''create_function'', ''create_aggregate'',
     ''create_collation'', ''interrupt'', ''set_authorizer'', ''set_progress_handler'',
     ''set_trace_callback'', ''enable_load_extension'', ''load_extension'', ''iterdump'',
     ''backup'']"

definition probe_text :: string where
  "probe_text = ''SELECT name FROM sqlite_temp_master WHERE type='' @ apostrophe @ ''table'' @
     apostrophe @ '';''"

definition try_block :: "world \<Rightarrow> connection \<Rightarrow> (error + connection) \<times> world" where
  "try_block w conn =
    (if closed conn then (Inl ProgrammingError, logged probe_text [[]] w)
     else if ''excecute'' \<in> set connection_methods
       then (Inr (conn\<lparr>foreign_keys := True\<rparr>),
             logged ''PRAGMA foreign_keys = ON;'' [[]] (logged probe_text [[]] w))
       else (Inl AttributeError, logged probe_text [[]] w))"

definition db_connect :: "(world \<Rightarrow> connection \<Rightarrow> py list \<Rightarrow> outcome)
    \<Rightarrow> world \<Rightarrow> connection \<Rightarrow> py list \<Rightarrow> outcome" where
  "db_connect func w conn args =
    (case try_block w conn of
       (Inr conn', w') \<Rightarrow> func w' conn' args
     | (Inl e, w') \<Rightarrow>
        if e = AttributeError \<or> e = ProgrammingError
        then (case connection w' (db_name w') of (conn', w'') \<Rightarrow> func w'' conn' args)
        else (Inl e, w'))"

section \<open>Python values\<close>

function str_nat :: "nat \<Rightarrow> string" where
  "str_nat n = (if n < 10 then [char_of (48 + n)] else str_nat (n div 10) @ [char_of (48 + n mod 10)])"
  by pat_completeness auto
termination
  by (relation "measure id") auto

declare str_nat.simps [simp del]

definition str_int :: "int \<Rightarrow> string" where
  "str_int n = (if n < 0 then ''-'' @ str_nat (nat (- n)) else str_nat (nat n))"

fun py_str :: "py \<Rightarrow> string option" where
  "py_str PyNone = Some ''None''"
| "py_str (PyInt n) = Some (str_int n)"
| "py_str (PyStr s) = Some s"
| "py_str (PyList xs) = None"
| "py_str (PyTuple xs) = None"

fun py_len :: "py \<Rightarrow> error + nat" where
  "py_len (PyStr s) = Inr (length s)"
| "py_len (PyList xs) = Inr (length xs)"
| "py_len (PyTuple xs) = Inr (length xs)"
| "py_len _ = Inl TypeError"

fun py_iter :: "py \<Rightarrow> error + string list" where
  "py_iter (PyStr s) = Inr (map (\<lambda>c. [c]) s)"
| "py_iter (PyList xs) = Inr xs"
| "py_iter (PyTuple xs) = Inr xs"
| "py_iter _ = Inl TypeError"

fun str_join :: "string \<Rightarrow> string list \<Rightarrow> string" where
  "str_join sep [] = []"
| "str_join sep [x] = x"
| "str_join sep (x # y # ys) = x @ sep @ str_join sep (y # ys)"

section \<open>Table Registry\<close>

definition attribute_columns :: "string \<rightharpoonup> string" where
  "attribute_columns =
     [''meals'' \<mapsto> ''meal_name'',
      ''ingredients'' \<mapsto> ''ingredient_name'',
      ''measures'' \<mapsto> ''measure_name'',
      ''recipes'' \<mapsto> ''recipe_name'']"

definition attribute_conf :: "string \<Rightarrow> string option" where
  "attribute_conf table_name = attribute_columns table_name"

fun dict_get :: "py \<Rightarrow> error + string option" where
  "dict_get (PyStr s) = Inr (attribute_conf s)"
| "dict_get (PyList xs) = Inl TypeError"
| "dict_get _ = Inr None"

section \<open>Schema Manager\<close>

definition plain_column :: "string \<Rightarrow> column" where
  "plain_column n = \<lparr>cname = n, not_null = False, is_unique = False, primary_key = False,
     references = None\<rparr>"

definition meals_table :: table where
  "meals_table = \<lparr>cols = [(plain_column ''meal_id'')\<lparr>primary_key := True\<rparr>,
       (plain_column ''meal_name'')\<lparr>not_null := True, is_unique := True\<rparr>],
     autoincrement = False, seq = 0, rows = []\<rparr>"

definition ingredients_table :: table where
  "ingredients_table = \<lparr>cols = [(plain_column ''ingredient_id'')\<lparr>primary_key := True\<rparr>,
       (plain_column ''ingredient_name'')\<lparr>not_null := True, is_unique := True\<rparr>],
     autoincrement = False, seq = 0, rows = []\<rparr>"

definition measures_table :: table where
  "measures_table = \<lparr>cols = [(plain_column ''measure_id'')\<lparr>primary_key := True\<rparr>,
       (plain_column ''measure_name'')\<lparr>is_unique := True\<rparr>],
     autoincrement = False, seq = 0, rows = []\<rparr>"

definition recipes_table :: table where
  "recipes_table = \<lparr>cols = [(plain_column ''recipe_id'')\<lparr>primary_key := True\<rparr>,
       (plain_column ''recipe_name'')\<lparr>not_null := True\<rparr>,
       plain_column ''recipe_description''],
     autoincrement = False, seq = 0, rows = []\<rparr>"

definition serve_table :: table where
  "serve_table = \<lparr>cols = [(plain_column ''serve_id'')\<lparr>primary_key := True\<rparr>,
       (plain_column ''recipe_id'')\<lparr>not_null := True,
          references := Some (''recipes'', ''recipe_id'')\<rparr>,
       (plain_column ''meal_id'')\<lparr>not_null := True,
          references := Some (''meals'', ''meal_id'')\<rparr>],
     autoincrement = True, seq = 0, rows = []\<rparr>"

definition quantity_table :: table where
  "quantity_table = \<lparr>cols = [(plain_column ''quantity_id'')\<lparr>primary_key := True\<rparr>,
       (plain_column ''quantity'')\<lparr>not_null := True\<rparr>,
       (plain_column ''recipe_id'')\<lparr>not_null := True,
          references := Some (''recipes'', ''recipe_id'')\<rparr>,
       (plain_column ''measure_id'')\<lparr>not_null := True,
          references := Some (''measures'', ''measure_id'')\<rparr>,
       (plain_column ''ingredient_id'')\<lparr>not_null := True,
          references := Some (''ingredients'', ''ingredient_id'')\<rparr>],
     autoincrement = True, seq = 0, rows = []\<rparr>"

definition schema :: database where
  "schema = [(''meals'', meals_table), (''ingredients'', ingredients_table),
     (''measures'', measures_table), (''recipes'', recipes_table),
     (''serve'', serve_table), (''quantity'', quantity_table)]"

definition create_if_not_exists :: "database \<Rightarrow> database" where
  "create_if_not_exists db = db @ filter (\<lambda>(n, T). map_of db n = None) schema"

definition generate_tables_body :: "world \<Rightarrow> connection \<Rightarrow> py list \<Rightarrow> outcome" where
  "generate_tables_body w conn args =
    (if args \<noteq> [] then (Inl TypeError, w)
     else with_conn w conn (\<lambda>s. case s of (w', db) \<Rightarrow>
       (case cursor conn of
          Inl e \<Rightarrow> (Inl e, s)
        | Inr u \<Rightarrow> (Inr RNone, w', create_if_not_exists db))))"

definition generate_tables :: "world \<Rightarrow> connection \<Rightarrow> py list \<Rightarrow> outcome" where
  "generate_tables = db_connect generate_tables_body"

fun truncate_loop :: "connection \<Rightarrow> string list \<Rightarrow> session \<Rightarrow> (error + result) \<times> session" where
  "truncate_loop conn [] s = (Inr RNone, s)"
| "truncate_loop conn (table # tables) s =
    (case execute conn (''DELETE FROM '' @ table @ '';'') [] s of
       (Inl e, s') \<Rightarrow> (Inl e, s')
     | (Inr rs, s') \<Rightarrow> truncate_loop conn tables s')"

definition truncate_tables :: "world \<Rightarrow> connection \<Rightarrow> outcome" where
  "truncate_tables w conn =
    with_conn w conn (\<lambda>s.
      case cursor conn of
        Inl e \<Rightarrow> (Inl e, s)
      | Inr u \<Rightarrow> truncate_loop conn [''meals'', ''ingredients'', ''measures''] s)"

section \<open>Record Access Layer\<close>

definition returning_none :: "(error + val list list) \<times> session \<Rightarrow> (error + result) \<times> session" where
  "returning_none r = (case r of (Inl e, s) \<Rightarrow> (Inl e, s) | (Inr rs, s) \<Rightarrow> (Inr RNone, s))"

definition write_one :: "world \<Rightarrow> connection \<Rightarrow> string \<Rightarrow> (string \<times> py) list \<Rightarrow> outcome" where
  "write_one w conn query params =
    with_conn w conn (\<lambda>s.
      case cursor conn of
        Inl e \<Rightarrow> (Inl e, s)
      | Inr u \<Rightarrow> returning_none (execute conn query params s))"

definition insert_db_body :: "world \<Rightarrow> connection \<Rightarrow> py list \<Rightarrow> outcome" where
  "insert_db_body w conn args =
    (if length args \<noteq> 2 then (Inl (ValueError Arity), w)
     else case dict_get (args ! 0) of
       Inl e \<Rightarrow> (Inl e, w)
     | Inr None \<Rightarrow> (Inl (ValueError Unsupported), w)
     | Inr (Some attribute_column) \<Rightarrow>
        write_one w conn (''INSERT INTO ('' @ attribute_column @ '') VALUES (:value);'')
          [(''value'', args ! 1)])"

definition insert_db :: "world \<Rightarrow> connection \<Rightarrow> py list \<Rightarrow> outcome" where
  "insert_db = db_connect insert_db_body"

definition insert_to_recipe_body :: "world \<Rightarrow> connection \<Rightarrow> py list \<Rightarrow> outcome" where
  "insert_to_recipe_body w conn args =
    (if length args \<noteq> 2 then (Inl (ValueError Arity), w)
     else write_one w conn
       ''INSERT INTO recipes([recipe_name], [recipe_description]) VALUES (:value1, :value2);''
       [(''value1'', args ! 0), (''value2'', args ! 1)])"

definition insert_to_recipe :: "world \<Rightarrow> connection \<Rightarrow> py list \<Rightarrow> outcome" where
  "insert_to_recipe = db_connect insert_to_recipe_body"

definition insert_to_serve_body :: "world \<Rightarrow> connection \<Rightarrow> py list \<Rightarrow> outcome" where
  "insert_to_serve_body w conn args =
    (if length args \<noteq> 2 then (Inl (ValueError Arity), w)
     else write_one w conn
       ''INSERT INTO serve([recipe_id], [meal_id]) VALUES (:value1, :value2);''
       [(''value1'', args ! 0), (''value2'', args ! 1)])"

definition insert_to_serve :: "world \<Rightarrow> connection \<Rightarrow> py list \<Rightarrow> outcome" where
  "insert_to_serve = db_connect insert_to_serve_body"

definition insert_ingredient_measure_body :: "world \<Rightarrow> connection \<Rightarrow> py list \<Rightarrow> outcome" where
  "insert_ingredient_measure_body w conn args =
    (if length args \<noteq> 2 then (Inl (ValueError Arity), w)
     else case dict_get (args ! 0) of
       Inl e \<Rightarrow> (Inl e, w)
     | Inr None \<Rightarrow> (Inl (ValueError Unsupported), w)
     | Inr (Some attribute_column) \<Rightarrow>
        (case py_str (args ! 0) of
           None \<Rightarrow> (Inl Unmodelled, w)
         | Some table_name \<Rightarrow>
            write_one w conn
              (''INSERT INTO '' @ table_name @ ''('' @ attribute_column @ '') VALUES (:value);'')
              [(''value'', args ! 1)]))"

definition insert_ingredient_measure :: "world \<Rightarrow> connection \<Rightarrow> py list \<Rightarrow> outcome" where
  "insert_ingredient_measure = db_connect insert_ingredient_measure_body"

definition insert_to_quantity_body :: "world \<Rightarrow> connection \<Rightarrow> py list \<Rightarrow> outcome" where
  "insert_to_quantity_body w conn args =
    (if length args \<noteq> 5 then (Inl (ValueError Arity), w)
     else case py_str (args ! 0) of
       None \<Rightarrow> (Inl Unmodelled, w)
     | Some table_name \<Rightarrow>
        write_one w conn
          (''INSERT INTO '' @ table_name @ ''(quantity, [recipe_id], '' @
           ''[measure_id], [ingredient_id]) VALUES (:value1, :value2, '' @
           '':value3, :value4);'')
          [(''value1'', args ! 1), (''value2'', args ! 2), (''value3'', args ! 3),
           (''value4'', args ! 4)])"

definition insert_to_quantity :: "world \<Rightarrow> connection \<Rightarrow> py list \<Rightarrow> outcome" where
  "insert_to_quantity = db_connect insert_to_quantity_body"

definition insert_many_db_body :: "world \<Rightarrow> connection \<Rightarrow> py list \<Rightarrow> outcome" where
  "insert_many_db_body w conn args =
    (if length args \<noteq> 2 then (Inl (ValueError Arity), w)
     else case dict_get (args ! 0) of
       Inl e \<Rightarrow> (Inl e, w)
     | Inr None \<Rightarrow> (Inl (ValueError Unsupported), w)
     | Inr (Some attribute_column) \<Rightarrow>
        (case py_str (args ! 0) of
           None \<Rightarrow> (Inl Unmodelled, w)
         | Some table_name \<Rightarrow>
            with_conn w conn (\<lambda>s.
              case cursor conn of
                Inl e \<Rightarrow> (Inl e, s)
              | Inr u \<Rightarrow>
                 (case py_iter (args ! 1) of
                    Inl e \<Rightarrow> (Inl e, s)
                  | Inr attribute_values \<Rightarrow>
                     returning_none (executemany conn
                       (''INSERT INTO '' @ table_name @ '' ('' @ attribute_column @
                        '') VALUES (:value);'')
                       (map (\<lambda>v. [(''value'', PyStr v)]) attribute_values) s)))))"

definition insert_many_db :: "world \<Rightarrow> connection \<Rightarrow> py list \<Rightarrow> outcome" where
  "insert_many_db = db_connect insert_many_db_body"

definition db_update_body :: "world \<Rightarrow> connection \<Rightarrow> py list \<Rightarrow> outcome" where
  "db_update_body w conn args =
    (if length args \<noteq> 3 then (Inl (ValueError Arity), w)
     else if length args \<noteq> 2 then (Inl (ValueError Unpack), w)
     else case dict_get (args ! 0) of
       Inl e \<Rightarrow> (Inl e, w)
     | Inr None \<Rightarrow> (Inl (ValueError Unsupported), w)
     | Inr (Some attribute_column) \<Rightarrow>
        (case py_str (args ! 0) of
           None \<Rightarrow> (Inl Unmodelled, w)
         | Some table_name \<Rightarrow>
            write_one w conn
              (''UPDATE '' @ table_name @ '' SET '' @ attribute_column @ '' = :value;'')
              [(''value'', args ! 1)]))"

definition db_update :: "world \<Rightarrow> connection \<Rightarrow> py list \<Rightarrow> outcome" where
  "db_update = db_connect db_update_body"

definition db_remove_body :: "world \<Rightarrow> connection \<Rightarrow> py list \<Rightarrow> outcome" where
  "db_remove_body w conn args =
    (if length args \<noteq> 3 then (Inl (ValueError Arity), w)
     else if length args \<noteq> 2 then (Inl (ValueError Unpack), w)
     else case dict_get (args ! 0) of
       Inl e \<Rightarrow> (Inl e, w)
     | Inr None \<Rightarrow> (Inl (ValueError Unsupported), w)
     | Inr (Some attribute_column) \<Rightarrow>
        (case py_str (args ! 0) of
           None \<Rightarrow> (Inl Unmodelled, w)
         | Some table_name \<Rightarrow>
            write_one w conn
              (''DELETE FROM '' @ table_name @ '' WHERE '' @ attribute_column @ '' = :value;'')
              [(''value'', args ! 1)]))"

definition db_remove :: "world \<Rightarrow> connection \<Rightarrow> py list \<Rightarrow> outcome" where
  "db_remove = db_connect db_remove_body"

definition fetchone :: "val list list \<Rightarrow> result" where
  "fetchone rs = (case rs of [] \<Rightarrow> RNone | r # rest \<Rightarrow> RRow r)"

definition select_db_body :: "world \<Rightarrow> connection \<Rightarrow> py list \<Rightarrow> outcome" where
  "select_db_body w conn args =
    (if length args \<noteq> 2 then (Inl (ValueError Arity), w)
     else case dict_get (args ! 0) of
       Inl e \<Rightarrow> (Inl e, w)
     | Inr None \<Rightarrow> (Inl (ValueError Unsupported), w)
     | Inr (Some attribute_column) \<Rightarrow>
        (case py_str (args ! 0) of
           None \<Rightarrow> (Inl Unmodelled, w)
         | Some table_name \<Rightarrow>
            reading w conn (\<lambda>s.
              case cursor conn of
                Inl e \<Rightarrow> (Inl e, s)
              | Inr u \<Rightarrow>
                 (case execute conn
                    (''SELECT * FROM '' @ table_name @ '' WHERE '' @ attribute_column @
                     '' = :value;'')
                    [(''value'', args ! 1)] s of
                    (Inl e, s') \<Rightarrow> (Inl e, s')
                  | (Inr rs, s') \<Rightarrow> (Inr (fetchone rs), s')))))"

definition select_db :: "world \<Rightarrow> connection \<Rightarrow> py list \<Rightarrow> outcome" where
  "select_db = db_connect select_db_body"

definition select_all_db_body :: "world \<Rightarrow> connection \<Rightarrow> py list \<Rightarrow> outcome" where
  "select_all_db_body w conn args =
    (if length args \<noteq> 1 then (Inl (ValueError Arity), w)
     else case py_str (args ! 0) of
       None \<Rightarrow> (Inl Unmodelled, w)
     | Some table_name \<Rightarrow>
        reading w conn (\<lambda>s.
          case cursor conn of
            Inl e \<Rightarrow> (Inl e, s)
          | Inr u \<Rightarrow>
             (case execute conn (''SELECT * FROM '' @ table_name @ '';'') [] s of
                (Inl e, s') \<Rightarrow> (Inl e, s')
              | (Inr rs, s') \<Rightarrow> (Inr (RRows rs), s'))))"

definition select_all_db :: "world \<Rightarrow> connection \<Rightarrow> py list \<Rightarrow> outcome" where
  "select_all_db = db_connect select_all_db_body"

section \<open>Recipe Search\<close>

definition single_head :: string where
  "single_head =
     nl @ ''               SELECT r.recipe_name'' @ nl @
     ''               FROM recipes r'' @ nl @
     ''               JOIN quantity q ON r.recipe_id = q.recipe_id'' @ nl @
     ''               JOIN ingredients i ON q.ingredient_id = i.ingredient_id'' @ nl @
     ''               JOIN serve s ON r.recipe_id = s.recipe_id'' @ nl @
     ''               JOIN meals m ON s.meal_id = m.meal_id'' @ nl @
     ''               WHERE (i.ingredient_name = '' @ apostrophe @ ''cacao'' @
     apostrophe @ '')'' @ nl @ ''               AND (m.meal_name IN (''"

definition single_tail :: string where
  "single_tail =
     ''))'' @ nl @ ''               GROUP BY m.meal_name'' @ nl @
     ''               ;'' @ nl @ ''               ''"

definition multi_head :: string where
  "multi_head =
     nl @ ''           SELECT r.recipe_name'' @ nl @ ''           FROM recipes r'' @
     nl @ ''           JOIN quantity q ON r.recipe_id = q.recipe_id'' @ nl @
     ''           JOIN ingredients i ON q.ingredient_id = i.ingredient_id'' @ nl @
     ''           JOIN serve s ON r.recipe_id = s.recipe_id'' @ nl @
     ''           JOIN meals m ON s.meal_id = m.meal_id'' @ nl @ ''           WHERE (''"

definition multi_mid :: string where
  "multi_mid =
     '')'' @ nl @ ''           AND (m.meal_name IN (''"

definition multi_having :: string where
  "multi_having =
     ''))'' @ nl @ ''           GROUP BY r.recipe_name'' @ nl @
     ''           HAVING COUNT(DISTINCT i.ingredient_name) = ''"

definition multi_tail :: string where
  "multi_tail =
     nl @ ''           ;'' @ nl @ ''           ''"

definition quoted :: "string \<Rightarrow> string" where
  "quoted meal = apostrophe @ meal @ apostrophe"

definition ingredient_test :: "string \<Rightarrow> string" where
  "ingredient_test ingredient = ''i.ingredient_name ='' @ apostrophe @ ingredient @ apostrophe"

definition find_recipes_query :: "py \<Rightarrow> py \<Rightarrow> error + string" where
  "find_recipes_query ingredients meals =
    (case py_len ingredients of
       Inl e \<Rightarrow> Inl e
     | Inr n \<Rightarrow>
        if n = 1
        then (case py_iter meals of
                Inl e \<Rightarrow> Inl e
              | Inr ms \<Rightarrow> Inr (single_head @ str_join '','' (map quoted ms) @ single_tail))
        else (case py_iter ingredients of
                Inl e \<Rightarrow> Inl e
              | Inr is \<Rightarrow>
                 (case py_iter meals of
                    Inl e \<Rightarrow> Inl e
                  | Inr ms \<Rightarrow>
                     Inr (multi_head @ str_join '' OR '' (map ingredient_test is) @ multi_mid @
                          str_join '','' (map quoted ms) @ multi_having @ str_nat n @
                          multi_tail))))"

fun first_column :: "val list list \<Rightarrow> error + string list" where
  "first_column [] = Inr []"
| "first_column (r # rs) =
    (case r of
       VText s # rest \<Rightarrow> (case first_column rs of Inl e \<Rightarrow> Inl e | Inr ss \<Rightarrow> Inr (s # ss))
     | _ \<Rightarrow> Inl TypeError)"

definition find_recipes_body :: "world \<Rightarrow> connection \<Rightarrow> py list \<Rightarrow> outcome" where
  "find_recipes_body w conn args =
    (if length args \<noteq> 2 then (Inl (ValueError Unpack), w)
     else case find_recipes_query (args ! 0) (args ! 1) of
       Inl e \<Rightarrow> (Inl e, w)
     | Inr query \<Rightarrow>
        reading w conn (\<lambda>s.
          case cursor conn of
            Inl e \<Rightarrow> (Inl e, s)
          | Inr u \<Rightarrow>
             (case execute conn query [] s of
                (Inl e, s') \<Rightarrow> (Inl e, s')
              | (Inr rs, s') \<Rightarrow>
                 (case first_column rs of
                    Inl e \<Rightarrow> (Inl e, s')
                  | Inr names \<Rightarrow> (Inr (RStr (str_join '', '' names)), s')))))"

definition find_recipes :: "world \<Rightarrow> connection \<Rightarrow> py list \<Rightarrow> outcome" where
  "find_recipes = db_connect find_recipes_body"

section \<open>Observations and example data\<close>

text \<open>
  The statements a call hands to the engine are the entries it appends to the trace.
\<close>

definition statements :: "world \<Rightarrow> world \<Rightarrow> (string \<times> (string \<times> py) list list) list" where
  "statements w w' = drop (length (trace w)) (trace w')"

definition table_rows :: "database \<Rightarrow> string \<Rightarrow> val list list" where
  "table_rows db t = (case map_of db t of None \<Rightarrow> [] | Some T \<Rightarrow> rows T)"

definition emptied :: "string \<Rightarrow> database \<Rightarrow> database" where
  "emptied t db =
    (case map_of db t of None \<Rightarrow> db | Some T \<Rightarrow> AList.update t (T\<lparr>rows := []\<rparr>) db)"

text \<open>
  A store file as \<^verbatim>\<open>blog.py\<close> leaves it after creating the schema and seeding a few
  reference rows, and the same file with one recipe: cocoa, made of cacao, served at
  breakfast.
\<close>

definition seeded :: database where
  "seeded =
    [(''meals'', meals_table\<lparr>rows := [[VInt 1, VText ''breakfast''], [VInt 2, VText ''lunch'']]\<rparr>),
     (''ingredients'', ingredients_table\<lparr>rows :=
        [[VInt 1, VText ''milk''], [VInt 2, VText ''cacao''], [VInt 3, VText ''sugar'']]\<rparr>),
     (''measures'', measures_table\<lparr>rows := [[VInt 1, VText ''cup'']]\<rparr>),
     (''recipes'', recipes_table),
     (''serve'', serve_table),
     (''quantity'', quantity_table)]"

definition cocoa_db :: database where
  "cocoa_db =
    [(''meals'', meals_table\<lparr>rows := [[VInt 1, VText ''breakfast''], [VInt 2, VText ''lunch'']]\<rparr>),
     (''ingredients'', ingredients_table\<lparr>rows :=
        [[VInt 1, VText ''milk''], [VInt 2, VText ''cacao''], [VInt 3, VText ''sugar'']]\<rparr>),
     (''measures'', measures_table\<lparr>rows := [[VInt 1, VText ''cup'']]\<rparr>),
     (''recipes'', recipes_table\<lparr>rows := [[VInt 1, VText ''cocoa'', VText ''hot'']]\<rparr>),
     (''serve'', serve_table\<lparr>rows := [[VInt 1, VInt 1, VInt 1]], seq := 1\<rparr>),
     (''quantity'', quantity_table\<lparr>rows := [[VInt 1, VInt 2, VInt 1, VInt 1, VInt 2]],
        seq := 1\<rparr>)]"

definition blog :: "database \<Rightarrow> world" where
  "blog db = \<lparr>db_name = ''food_blog.db'', stores = (\<lambda>s. [])(File ''food_blog.db'' := db),
     next_private = 0, trace = []\<rparr>"

definition blog_db :: "world \<Rightarrow> database" where
  "blog_db w = stores w (File ''food_blog.db'')"

definition handle :: connection where
  "handle = \<lparr>target = File ''food_blog.db'', closed = False, foreign_keys = False\<rparr>"

section \<open>The search, relationally\<close>

text \<open>
  The two statements of \<^verbatim>\<open>find_recipes\<close> are built by interpolating the names they
  are given between apostrophes. A name is \<open>plain\<close> when it has no apostrophe and no NUL
  character; then it is lexed as one string literal. A store \<open>has_schema\<close> when the six
  tables of the schema are there with their columns. The recipes of a store are
  \<open>named_recipes\<close> when each name is a text, as the column's type has it. A recipe
  \<open>uses\<close> an ingredient name when a quantity row links them, and is \<open>served_at\<close> a
  meal name when a serve row links them. The remaining definitions name the tokens, the
  syntax trees and the joined rows of the two statements.
\<close>

definition plain :: "string \<Rightarrow> bool" where
  "plain s \<longleftrightarrow> CHR 0x27 \<notin> set s \<and> CHR 0x00 \<notin> set s"

fun literal_tokens :: "string list \<Rightarrow> token list" where
  "literal_tokens [] = []"
| "literal_tokens [x] = [TStr x]"
| "literal_tokens (x # y # ys) = TStr x # TComma # literal_tokens (y # ys)"

fun test_tokens :: "string list \<Rightarrow> token list" where
  "test_tokens [] = []"
| "test_tokens [x] = [TIdent ''i'', TDot, TIdent ''ingredient_name'', TEq, TStr x]"
| "test_tokens (x # y # ys) =
     [TIdent ''i'', TDot, TIdent ''ingredient_name'', TEq, TStr x, TIdent ''or''] @
     test_tokens (y # ys)"

definition single_head_tokens :: "token list" where
  "single_head_tokens =
    [TIdent ''select'', TIdent ''r'', TDot, TIdent ''recipe_name'',
     TIdent ''from'', TIdent ''recipes'', TIdent ''r'',
     TIdent ''join'', TIdent ''quantity'', TIdent ''q'', TIdent ''on'',
       TIdent ''r'', TDot, TIdent ''recipe_id'', TEq, TIdent ''q'', TDot, TIdent ''recipe_id'',
     TIdent ''join'', TIdent ''ingredients'', TIdent ''i'', TIdent ''on'',
       TIdent ''q'', TDot, TIdent ''ingredient_id'', TEq, TIdent ''i'', TDot, TIdent ''ingredient_id'',
     TIdent ''join'', TIdent ''serve'', TIdent ''s'', TIdent ''on'',
       TIdent ''r'', TDot, TIdent ''recipe_id'', TEq, TIdent ''s'', TDot, TIdent ''recipe_id'',
     TIdent ''join'', TIdent ''meals'', TIdent ''m'', TIdent ''on'',
       TIdent ''s'', TDot, TIdent ''meal_id'', TEq, TIdent ''m'', TDot, TIdent ''meal_id'',
     TIdent ''where'', TLParen, TIdent ''i'', TDot, TIdent ''ingredient_name'', TEq,
       TStr ''cacao'', TRParen,
     TIdent ''and'', TLParen, TIdent ''m'', TDot, TIdent ''meal_name'', TIdent ''in'', TLParen]"

definition multi_head_tokens :: "token list" where
  "multi_head_tokens =
    [TIdent ''select'', TIdent ''r'', TDot, TIdent ''recipe_name'',
     TIdent ''from'', TIdent ''recipes'', TIdent ''r'',
     TIdent ''join'', TIdent ''quantity'', TIdent ''q'', TIdent ''on'',
       TIdent ''r'', TDot, TIdent ''recipe_id'', TEq, TIdent ''q'', TDot, TIdent ''recipe_id'',
     TIdent ''join'', TIdent ''ingredients'', TIdent ''i'', TIdent ''on'',
       TIdent ''q'', TDot, TIdent ''ingredient_id'', TEq, TIdent ''i'', TDot, TIdent ''ingredient_id'',
     TIdent ''join'', TIdent ''serve'', TIdent ''s'', TIdent ''on'',
       TIdent ''r'', TDot, TIdent ''recipe_id'', TEq, TIdent ''s'', TDot, TIdent ''recipe_id'',
     TIdent ''join'', TIdent ''meals'', TIdent ''m'', TIdent ''on'',
       TIdent ''s'', TDot, TIdent ''meal_id'', TEq, TIdent ''m'', TDot, TIdent ''meal_id'',
     TIdent ''where'', TLParen]"

definition ingredient_atom :: "string \<Rightarrow> atom" where
  "ingredient_atom x = Eq (Some ''i'', ''ingredient_name'') (Lit (VText x))"

definition meal_atom :: "string list \<Rightarrow> atom" where
  "meal_atom ms = In (Some ''m'', ''meal_name'') (map (\<lambda>m. Lit (VText m)) ms)"

definition search_joins :: "((string \<times> string) \<times> colref \<times> colref) list" where
  "search_joins =
    [((''quantity'', ''q''), (Some ''r'', ''recipe_id''), (Some ''q'', ''recipe_id'')),
     ((''ingredients'', ''i''), (Some ''q'', ''ingredient_id''), (Some ''i'', ''ingredient_id'')),
     ((''serve'', ''s''), (Some ''r'', ''recipe_id''), (Some ''s'', ''recipe_id'')),
     ((''meals'', ''m''), (Some ''s'', ''meal_id''), (Some ''m'', ''meal_id''))]"

definition single_stmt :: "string list \<Rightarrow> stmt" where
  "single_stmt ms =
    Select (Cols [(Some ''r'', ''recipe_name'')]) (''recipes'', ''r'') search_joins
      [[ingredient_atom ''cacao''], [meal_atom ms]] (Some (Some ''m'', ''meal_name'')) None"

definition multi_stmt :: "string list \<Rightarrow> string list \<Rightarrow> nat \<Rightarrow> stmt" where
  "multi_stmt is ms n =
    Select (Cols [(Some ''r'', ''recipe_name'')]) (''recipes'', ''r'') search_joins
      [map ingredient_atom is, [meal_atom ms]] (Some (Some ''r'', ''recipe_name''))
      (Some ((Some ''i'', ''ingredient_name''), n))"

definition has_schema :: "database \<Rightarrow> bool" where
  "has_schema db \<longleftrightarrow>
     list_all (\<lambda>(n, T). map_option col_names (map_of db n) = Some (col_names T)) schema"

definition table_of :: "database \<Rightarrow> string \<Rightarrow> table" where
  "table_of db t = (case map_of db t of None \<Rightarrow> \<lparr>cols = [], autoincrement = False, seq = 0, rows = []\<rparr> | Some T \<Rightarrow> T)"

definition search_scope :: scope where
  "search_scope =
    [(''r'', [''recipe_id'', ''recipe_name'', ''recipe_description'']),
     (''q'', [''quantity_id'', ''quantity'', ''recipe_id'', ''measure_id'', ''ingredient_id'']),
     (''i'', [''ingredient_id'', ''ingredient_name'']),
     (''s'', [''serve_id'', ''recipe_id'', ''meal_id'']),
     (''m'', [''meal_id'', ''meal_name''])]"

definition search_rows :: "database \<Rightarrow> env list" where
  "search_rows db =
    concat (map (\<lambda>r.
      concat (map (\<lambda>q.
        concat (map (\<lambda>i.
          concat (map (\<lambda>s.
            map (\<lambda>m. [r, q, i, s, m])
              (filter (\<lambda>m. sql_eq (cell s 2) (cell m 0)) (table_rows db ''meals'')))
            (filter (\<lambda>s. sql_eq (cell r 0) (cell s 1)) (table_rows db ''serve''))))
          (filter (\<lambda>i. sql_eq (cell q 4) (cell i 0)) (table_rows db ''ingredients''))))
        (filter (\<lambda>q. sql_eq (cell r 0) (cell q 2)) (table_rows db ''quantity''))))
      (table_rows db ''recipes''))"

definition recipe_name_of :: "env \<Rightarrow> val" where
  "recipe_name_of e = cell (env_row e 0) 1"

definition ingredient_name_of :: "env \<Rightarrow> val" where
  "ingredient_name_of e = cell (env_row e 2) 1"

definition meal_name_of :: "env \<Rightarrow> val" where
  "meal_name_of e = cell (env_row e 4) 1"

definition matching :: "database \<Rightarrow> string list \<Rightarrow> string list \<Rightarrow> env list" where
  "matching db is ms =
     filter (\<lambda>e. ingredient_name_of e \<in> VText ` set is \<and> meal_name_of e \<in> VText ` set ms)
       (search_rows db)"



fun is_text :: "val \<Rightarrow> bool" where
  "is_text (VText s) = True"
| "is_text _ = False"

fun text_of :: "val \<Rightarrow> string" where
  "text_of (VText s) = s"
| "text_of _ = []"

definition named_recipes :: "database \<Rightarrow> bool" where
  "named_recipes db = list_all (\<lambda>r. is_text (cell r 1)) (table_rows db ''recipes'')"

definition multi_names :: "database \<Rightarrow> string list \<Rightarrow> string list \<Rightarrow> string list" where
  "multi_names db is ms =
     map text_of
       (filter (\<lambda>v. length (remdups (filter (\<lambda>v. v \<noteq> VNull)
            (map ingredient_name_of (filter (\<lambda>e. recipe_name_of e = v) (matching db is ms))))) =
              length is)
          (remdups (map recipe_name_of (matching db is ms))))"

definition single_meals :: "database \<Rightarrow> string list \<Rightarrow> val list" where
  "single_meals db ms = remdups (map meal_name_of (matching db [''cacao''] ms))"

definition single_pick :: "database \<Rightarrow> string list \<Rightarrow> val \<Rightarrow> env" where
  "single_pick db ms v = last (filter (\<lambda>e. meal_name_of e = v) (matching db [''cacao''] ms))"



section \<open>Auxiliary facts\<close>

lemmas lexer_defs = tokens_def classify_def lower_def word_class_def

lemmas parser_defs = parse_def statement_def insert_stmt_def delete_stmt_def select_stmt_def
  select_columns_def having_def group_by_def join_clause_def table_alias_def where_clause_def
  clause_def atom_def in_list_def operand_def colref_def reserved_words_def nat_of_digits_def
  sep1.simps many.simps

lemmas schema_defs = seeded_def cocoa_db_def schema_def meals_table_def ingredients_table_def
  measures_table_def recipes_table_def serve_table_def quantity_table_def plain_column_def

lemmas engine_defs = prepare_def execute_def write_one_def with_conn_def reading_def cursor_def
  returning_none_def run_insert_def run_delete_def run_select_def new_row_def next_rowid_def
  rowids_def column_violated_def col_names_def cell_def env_row_def at_def sql_eq_def
  cond_true_def cond_ok_def int64_def

subsection \<open>The decorator always reconnects\<close>

lemma logged_simps [simp]:
  "db_name (logged q pss w) = db_name w"
  "stores (logged q pss w) = stores w"
  "next_private (logged q pss w) = next_private w"
  "trace (logged q pss w) = trace w @ [(q, pss)]"
  by (simp_all add: logged_def)

lemma db_connect_fresh:
  "db_connect func w conn args =
     (case connection (logged probe_text [[]] w) (db_name w) of (conn', w') \<Rightarrow> func w' conn' args)"
  by (simp add: db_connect_def try_block_def connection_methods_def)

lemma connection_facts:
  assumes "connection w p = (c, w')"
  shows "closed c = False" "foreign_keys c = False" "trace w' = trace w" "db_name w' = db_name w"
    "stores w' (File f) = stores w (File f)"
  using assms by (auto simp: connection_def sqlite3_connect_def split: if_splits)

lemma connection_file:
  "p \<noteq> [] \<Longrightarrow> p \<noteq> '':memory:'' \<Longrightarrow>
   connection w p = (\<lparr>target = File p, closed = False, foreign_keys = False\<rparr>, w)"
  by (simp add: connection_def sqlite3_connect_def)

lemma connection_trace: "trace (snd (connection w p)) = trace w"
  by (simp add: connection_def sqlite3_connect_def)

lemma connection_stores: "stores (snd (connection w p)) (File f) = stores w (File f)"
  by (simp add: connection_def sqlite3_connect_def)

lemma blog_simps [simp]:
  "db_name (blog db) = ''food_blog.db''"
  "stores (blog db) (File ''food_blog.db'') = db"
  "trace (blog db) = []"
  by (simp_all add: blog_def)

subsection \<open>The statements with a fixed text\<close>

lemma parse_insert_db:
  "parse ''INSERT INTO (meal_name) VALUES (:value);'' = None"
  "parse ''INSERT INTO (ingredient_name) VALUES (:value);'' = None"
  "parse ''INSERT INTO (measure_name) VALUES (:value);'' = None"
  "parse ''INSERT INTO (recipe_name) VALUES (:value);'' = None"
  by (simp_all add: lexer_defs parser_defs)

lemma parse_insert_serve:
  "parse ''INSERT INTO serve([recipe_id], [meal_id]) VALUES (:value1, :value2);'' =
     Some (Insert ''serve'' [''recipe_id'', ''meal_id''] [Param ''value1'', Param ''value2''])"
  by (simp add: lexer_defs parser_defs)

lemma parse_insert_quantity:
  "parse (''INSERT INTO '' @ ''quantity'' @ ''(quantity, [recipe_id], '' @
           ''[measure_id], [ingredient_id]) VALUES (:value1, :value2, '' @
           '':value3, :value4);'') =
   Some (Insert ''quantity'' [''quantity'', ''recipe_id'', ''measure_id'', ''ingredient_id'']
     [Param ''value1'', Param ''value2'', Param ''value3'', Param ''value4''])"
  by (simp add: lexer_defs parser_defs)

lemma parse_delete:
  "parse ''DELETE FROM meals;'' = Some (Delete ''meals'' [])"
  "parse ''DELETE FROM ingredients;'' = Some (Delete ''ingredients'' [])"
  "parse ''DELETE FROM measures;'' = Some (Delete ''measures'' [])"
  by (simp_all add: lexer_defs parser_defs)

lemma parse_select_all_serve:
  "parse ''SELECT * FROM serve;'' = Some (Select Star (''serve'', ''serve'') [] [] None None)"
  by (simp add: lexer_defs parser_defs)

lemma parse_select_brunch:
  "parse ''SELECT * FROM meals WHERE meal_name = :value;'' =
     Some (Select Star (''meals'', ''meals'') [] [[Eq (None, ''meal_name'') (Param ''value'')]]
       None None)"
  by (simp add: lexer_defs parser_defs)

subsection \<open>Deleting every row of a table\<close>

lemma map_of_emptied:
  "map_of (emptied t db) u =
     (if u = t then map_option (\<lambda>T. T\<lparr>rows := []\<rparr>) (map_of db t) else map_of db u)"
  by (simp add: emptied_def update_conv' split: option.splits)

lemma execute_delete_all:
  assumes "parse (''DELETE FROM '' @ t @ '';'') = Some (Delete t [])"
    and "CHR 0x00 \<notin> set t"
    and "map_of db t \<noteq> None"
    and "\<not> foreign_keys c"
  shows "execute c (''DELETE FROM '' @ t @ '';'') [] (w, db) =
           (Inr [], logged (''DELETE FROM '' @ t @ '';'') [[]] w, emptied t db)"
  using assms
  by (auto simp: execute_def prepare_def cond_ok_def run_delete_def cond_true_def emptied_def)

lemma truncate_loop_three:
  assumes "\<not> foreign_keys c"
    and "map_of db ''meals'' \<noteq> None" "map_of db ''ingredients'' \<noteq> None"
      "map_of db ''measures'' \<noteq> None"
  shows "truncate_loop c [''meals'', ''ingredients'', ''measures''] (w, db) =
     (Inr RNone,
      logged ''DELETE FROM measures;'' [[]]
        (logged ''DELETE FROM ingredients;'' [[]] (logged ''DELETE FROM meals;'' [[]] w)),
      emptied ''measures'' (emptied ''ingredients'' (emptied ''meals'' db)))"
proof -
  have 1: "execute c (''DELETE FROM '' @ ''meals'' @ '';'') [] (w, db) =
      (Inr [], logged ''DELETE FROM meals;'' [[]] w, emptied ''meals'' db)"
    using execute_delete_all [of "''meals''" db c w] assms parse_delete by simp
  have 2: "execute c (''DELETE FROM '' @ ''ingredients'' @ '';'') [] (w', emptied ''meals'' db) =
      (Inr [], logged ''DELETE FROM ingredients;'' [[]] w',
       emptied ''ingredients'' (emptied ''meals'' db))"
    for w'
    using execute_delete_all [of "''ingredients''" "emptied ''meals'' db" c w'] assms parse_delete
    by (simp add: map_of_emptied)
  have 3: "execute c (''DELETE FROM '' @ ''measures'' @ '';'') []
        (w', emptied ''ingredients'' (emptied ''meals'' db)) =
      (Inr [], logged ''DELETE FROM measures;'' [[]] w',
       emptied ''measures'' (emptied ''ingredients'' (emptied ''meals'' db)))"
    for w'
    using execute_delete_all
      [of "''measures''" "emptied ''ingredients'' (emptied ''meals'' db)" c w']
      assms parse_delete
    by (simp add: map_of_emptied)
  show ?thesis
    by (simp only: truncate_loop.simps 1 2 3 prod.case sum.case)
qed

lemma truncate_tables_result:
  assumes "\<not> closed c" "\<not> foreign_keys c"
    and "map_of (stores w (target c)) ''meals'' \<noteq> None"
      "map_of (stores w (target c)) ''ingredients'' \<noteq> None"
      "map_of (stores w (target c)) ''measures'' \<noteq> None"
  shows "fst (truncate_tables w c) = Inr RNone"
    and "stores (snd (truncate_tables w c)) (target c) =
      emptied ''measures'' (emptied ''ingredients'' (emptied ''meals'' (stores w (target c))))"
proof -
  note L = truncate_loop_three [OF assms(2-5), of w]
  show "fst (truncate_tables w c) = Inr RNone"
    and "stores (snd (truncate_tables w c)) (target c) =
      emptied ''measures'' (emptied ''ingredients'' (emptied ''meals'' (stores w (target c))))"
    using assms(1)
    by (simp_all add: truncate_tables_def with_conn_def cursor_def L del: truncate_loop.simps)
qed

lemma truncate_tables_kept:
  assumes "\<not> closed c" "\<not> foreign_keys c"
    and "map_of (stores w (target c)) ''meals'' \<noteq> None"
      "map_of (stores w (target c)) ''ingredients'' \<noteq> None"
      "map_of (stores w (target c)) ''measures'' \<noteq> None"
  shows "map_of (stores (snd (truncate_tables w c)) (target c)) t =
    (if t \<in> {''meals'', ''ingredients'', ''measures''}
     then map_option (\<lambda>T. T\<lparr>rows := []\<rparr>) (map_of (stores w (target c)) t)
     else map_of (stores w (target c)) t)"
  by (simp add: truncate_tables_result(2) [OF assms] map_of_emptied)

lemma truncate_tables_blocked:
  "fst (truncate_tables (blog cocoa_db) (handle\<lparr>foreign_keys := True\<rparr>)) = Inl IntegrityError"
  "stores (snd (truncate_tables (blog cocoa_db) (handle\<lparr>foreign_keys := True\<rparr>)))
     (File ''food_blog.db'') = cocoa_db"
  using parse_delete
  by (simp_all add: truncate_tables_def with_conn_def cursor_def execute_def prepare_def
      cond_ok_def run_delete_def cond_true_def referenced_def col_names_def cell_def
      handle_def schema_defs)

subsection \<open>The two arity checks that contradict each other\<close>

lemma db_remove_raises:
  "fst (db_remove w c args) = Inl (ValueError (if length args = 3 then Unpack else Arity))"
  by (simp add: db_remove_def db_connect_fresh db_remove_body_def split: prod.splits)

lemma db_remove_stores:
  "stores (snd (db_remove w c args)) (File f) = stores w (File f)"
  by (auto simp: db_remove_def db_connect_fresh db_remove_body_def split: prod.splits
      dest: connection_facts)

subsection \<open>An unsupported table name\<close>

lemma unsupported:
  assumes "attribute_conf t = None"
  shows "insert_db w conn [PyStr t, v] =
           (Inl (ValueError Unsupported), snd (connection (logged probe_text [[]] w) (db_name w)))"
    and "insert_ingredient_measure w conn [PyStr t, v] =
           (Inl (ValueError Unsupported), snd (connection (logged probe_text [[]] w) (db_name w)))"
    and "insert_many_db w conn [PyStr t, v] =
           (Inl (ValueError Unsupported), snd (connection (logged probe_text [[]] w) (db_name w)))"
    and "select_db w conn [PyStr t, v] =
           (Inl (ValueError Unsupported), snd (connection (logged probe_text [[]] w) (db_name w)))"
  using assms
  by (simp_all add: insert_db_def insert_ingredient_measure_def insert_many_db_def select_db_def
      db_connect_fresh insert_db_body_def insert_ingredient_measure_body_def
      insert_many_db_body_def select_db_body_def split: prod.splits)

subsection \<open>Lexing the search statements\<close>

lemma classify_quote: "classify c = Quote \<longleftrightarrow> c = CHR 0x27"
proof -
  have "classify c = Quote \<longleftrightarrow> (of_char c :: nat) = 39"
    by (simp add: classify_def Let_def)
  also have "\<dots> \<longleftrightarrow> (of_char c :: nat) = of_char (CHR 0x27)"
    by simp
  also have "\<dots> \<longleftrightarrow> c = CHR 0x27"
    by (simp only: of_char_eq_iff)
  finally show ?thesis .
qed

lemma lex_in_string:
  "CHR 0x27 \<notin> set x \<Longrightarrow> foldl lex_step (out, InStr a) x = (out, InStr (a @ x))"
  by (induction x arbitrary: a) (auto simp: classify_quote)

lemma lex_literal:
  "CHR 0x27 \<notin> set x \<Longrightarrow>
   foldl lex_step (out, Start) (CHR 0x27 # x @ CHR 0x27 # rest) =
   foldl lex_step (out, InStrQ x) rest"
  by (simp add: lex_in_string classify_def)

lemma lex_literals:
  "list_all plain ms \<Longrightarrow>
   foldl lex_step (out, Start) (str_join '','' (map quoted ms) @ CHR '')'' # rest) =
   foldl lex_step (out @ literal_tokens ms @ [TRParen], Start) rest"
proof (induction ms arbitrary: out rule: literal_tokens.induct)
  case 1
  show ?case by (simp add: classify_def)
next
  case (2 x)
  then have x: "CHR 0x27 \<notin> set x" by (simp add: plain_def)
  show ?case by (simp add: quoted_def lex_in_string [OF x] classify_def)
next
  case (3 x y ys)
  from "3.prems" have x: "CHR 0x27 \<notin> set x"
    by (simp add: plain_def)
  from "3.prems" have rest: "list_all plain (y # ys)"
    by simp
  have "foldl lex_step (out, Start) (str_join '','' (map quoted (x # y # ys)) @ CHR '')'' # rest) =
        foldl lex_step (out @ [TStr x, TComma], Start)
          (str_join '','' (map quoted (y # ys)) @ CHR '')'' # rest)"
    by (simp add: quoted_def lex_in_string [OF x] classify_def)
  also have "\<dots> = foldl lex_step ((out @ [TStr x, TComma]) @ literal_tokens (y # ys) @ [TRParen], Start) rest"
    by (rule "3.IH" [OF rest])
  finally show ?case by simp
qed

lemma lex_tests:
  "list_all plain is \<Longrightarrow>
   foldl lex_step (out, Start) (str_join '' OR '' (map ingredient_test is) @ CHR '')'' # rest) =
   foldl lex_step (out @ test_tokens is @ [TRParen], Start) rest"
proof (induction "is" arbitrary: out rule: test_tokens.induct)
  case 1
  show ?case by (simp add: classify_def)
next
  case (2 x)
  then have x: "CHR 0x27 \<notin> set x" by (simp add: plain_def)
  show ?case
    by (simp add: ingredient_test_def lexer_defs lex_in_string [OF x])
next
  case (3 x y ys)
  from "3.prems" have x: "CHR 0x27 \<notin> set x"
    by (simp add: plain_def)
  from "3.prems" have rest: "list_all plain (y # ys)"
    by simp
  have "foldl lex_step (out, Start)
          (str_join '' OR '' (map ingredient_test (x # y # ys)) @ CHR '')'' # rest) =
        foldl lex_step
          (out @ [TIdent ''i'', TDot, TIdent ''ingredient_name'', TEq, TStr x, TIdent ''or''], Start)
          (str_join '' OR '' (map ingredient_test (y # ys)) @ CHR '')'' # rest)"
    by (simp add: ingredient_test_def lexer_defs lex_in_string [OF x])
  also have "\<dots> = foldl lex_step
      ((out @ [TIdent ''i'', TDot, TIdent ''ingredient_name'', TEq, TStr x, TIdent ''or'']) @
        test_tokens (y # ys) @ [TRParen], Start) rest"
    by (rule "3.IH" [OF rest])
  finally show ?case by simp
qed

lemma lex_literals_close:
  "list_all plain ms \<Longrightarrow>
   lex_step (foldl lex_step (out, Start) (str_join '','' (map quoted ms))) CHR '')'' =
   (out @ literal_tokens ms @ [TRParen], Start)"
  using lex_literals [of ms out "[]"] by simp

lemma lex_tests_close:
  "list_all plain is \<Longrightarrow>
   lex_step (foldl lex_step (out, Start) (str_join '' OR '' (map ingredient_test is))) CHR '')'' =
   (out @ test_tokens is @ [TRParen], Start)"
  using lex_tests [of "is" out "[]"] by simp

lemma classify_digit: "(n::nat) < 10 \<Longrightarrow> classify (char_of (48 + n)) = Digit"
  by (simp add: classify_def Let_def)

lemma str_nat_digits: "list_all (\<lambda>c. classify c = Digit) (str_nat n)"
proof (induction n rule: str_nat.induct)
  case (1 n)
  show ?case
  proof (cases "n < 10")
    case True
    then show ?thesis by (subst str_nat.simps) (simp add: classify_digit)
  next
    case False
    with 1 show ?thesis by (subst str_nat.simps) (simp add: classify_digit)
  qed
qed

lemma str_nat_nonempty: "str_nat n \<noteq> []"
  by (subst str_nat.simps) simp

lemma lex_in_number:
  "list_all (\<lambda>c. classify c = Digit) ds \<Longrightarrow>
   foldl lex_step (out, InNum a) ds = (out, InNum (a @ ds))"
  by (induction ds arbitrary: a) simp_all

lemma lex_number_start:
  "list_all (\<lambda>c. classify c = Digit) ds \<Longrightarrow> ds \<noteq> [] \<Longrightarrow>
   foldl lex_step (out, Start) ds = (out, InNum ds)"
  by (cases ds) (simp_all add: lex_in_number)

lemma lex_str_nat:
  "lex_step (foldl lex_step (out, Start) (str_nat n)) CHR 0x0A = (out @ [TNum (str_nat n)], Start)"
  by (simp add: lex_number_start [OF str_nat_digits str_nat_nonempty] classify_def word_class_def)

lemma digit_value: "(n::nat) < 10 \<Longrightarrow> of_char (char_of (48 + n) :: char) - (48 :: nat) = n"
  by simp

lemma nat_of_digits_str_nat: "nat_of_digits (str_nat n) = n"
proof (induction n rule: str_nat.induct)
  case (1 n)
  show ?case
  proof (cases "n < 10")
    case True
    then show ?thesis by (subst str_nat.simps) (simp add: nat_of_digits_def)
  next
    case False
    with 1 have "nat_of_digits (str_nat (n div 10)) = n div 10" by simp
    with False show ?thesis
      by (subst str_nat.simps) (simp add: nat_of_digits_def)
  qed
qed

lemma lex_single_head:
  "foldl lex_step ([], Start) single_head = (single_head_tokens, Start)"
  by (simp add: single_head_def single_head_tokens_def lexer_defs)

lemma lex_multi_head:
  "foldl lex_step ([], Start) multi_head = (multi_head_tokens, Start)"
  by (simp add: multi_head_def multi_head_tokens_def lexer_defs)

lemma tokens_single:
  assumes "list_all plain ms"
  shows "tokens (single_head @ str_join '','' (map quoted ms) @ single_tail) =
    single_head_tokens @ literal_tokens ms @
    [TRParen, TRParen, TIdent ''group'', TIdent ''by'', TIdent ''m'', TDot, TIdent ''meal_name'',
     TSemi]"
  by (simp add: tokens_def lex_single_head single_tail_def lex_literals_close [OF assms]
      classify_def lower_def word_class_def)

lemma tokens_multi:
  assumes "list_all plain is" "list_all plain ms"
  shows "tokens (multi_head @ str_join '' OR '' (map ingredient_test is) @ multi_mid @
      str_join '','' (map quoted ms) @ multi_having @ str_nat n @ multi_tail) =
    multi_head_tokens @ test_tokens is @
    [TRParen, TIdent ''and'', TLParen, TIdent ''m'', TDot, TIdent ''meal_name'', TIdent ''in'',
     TLParen] @ literal_tokens ms @
    [TRParen, TRParen, TIdent ''group'', TIdent ''by'', TIdent ''r'', TDot, TIdent ''recipe_name'',
     TIdent ''having'', TIdent ''count'', TLParen, TIdent ''distinct'', TIdent ''i'', TDot,
     TIdent ''ingredient_name'', TRParen, TEq, TNum (str_nat n), TSemi]"
  by (simp add: tokens_def lex_multi_head multi_mid_def multi_having_def multi_tail_def
      lex_tests_close [OF assms(1)] lex_literals_close [OF assms(2)] lex_str_nat
      classify_def lower_def word_class_def)

subsection \<open>Parsing the search statements\<close>

lemma atom_test:
  "atom (TIdent ''i'' # TDot # TIdent ''ingredient_name'' # TEq # TStr x # rest) =
     Some (ingredient_atom x, rest)"
  by (simp add: atom_def colref_def operand_def reserved_words_def ingredient_atom_def)

lemma parse_tests:
  "is \<noteq> [] \<Longrightarrow>
   sep1 atom (TIdent ''or'') (test_tokens is @ TRParen # rest) =
     Some (map ingredient_atom is, TRParen # rest)"
proof (induction "is" rule: test_tokens.induct)
  case 1
  then show ?case by simp
next
  case (2 x)
  show ?case by (subst sep1.simps) (simp add: atom_test)
next
  case (3 x y ys)
  then have IH: "sep1 atom (TIdent ''or'') (test_tokens (y # ys) @ TRParen # rest) =
     Some (map ingredient_atom (y # ys), TRParen # rest)"
    by simp
  show ?case
    by (subst sep1.simps) (simp add: atom_test IH)
qed

lemma parse_no_tests:
  "sep1 atom (TIdent ''or'') (TRParen # rest) = None"
  by (subst sep1.simps) (simp add: atom_def colref_def)

lemma operand_literal: "operand (TStr x # rest) = Some (Lit (VText x), rest)"
  by (simp add: operand_def)

lemma parse_literals_nonempty:
  "ms \<noteq> [] \<Longrightarrow>
   sep1 operand TComma (literal_tokens ms @ TRParen # rest) =
     Some (map (\<lambda>m. Lit (VText m)) ms, TRParen # rest)"
proof (induction ms rule: literal_tokens.induct)
  case 1
  then show ?case by simp
next
  case (2 x)
  show ?case by (subst sep1.simps) (simp add: operand_literal)
next
  case (3 x y ys)
  then have IH: "sep1 operand TComma (literal_tokens (y # ys) @ TRParen # rest) =
     Some (map (\<lambda>m. Lit (VText m)) (y # ys), TRParen # rest)"
    by simp
  show ?case
    by (subst sep1.simps) (simp add: operand_literal IH)
qed

lemma parse_literals:
  "in_list (literal_tokens ms @ TRParen # rest) = Some (map (\<lambda>m. Lit (VText m)) ms, rest)"
proof (cases ms)
  case Nil
  then show ?thesis by (simp add: in_list_def)
next
  case (Cons x xs)
  then have ne: "ms \<noteq> []" by simp
  obtain ts where ts: "literal_tokens ms @ TRParen # rest = TStr x # ts"
    using Cons by (cases xs) simp_all
  have "in_list (TStr x # ts) =
      (case sep1 operand TComma (TStr x # ts) of
         Some (xs, TRParen # r) \<Rightarrow> Some (xs, r)
       | _ \<Rightarrow> None)"
    by (simp add: in_list_def)
  then have "in_list (literal_tokens ms @ TRParen # rest) =
      (case sep1 operand TComma (literal_tokens ms @ TRParen # rest) of
         Some (xs, TRParen # r) \<Rightarrow> Some (xs, r)
       | _ \<Rightarrow> None)"
    by (simp only: ts)
  then show ?thesis
    by (simp add: parse_literals_nonempty [OF ne])
qed

lemma parse_meal_atom:
  "atom (TIdent ''m'' # TDot # TIdent ''meal_name'' # TIdent ''in'' # TLParen #
      literal_tokens ms @ TRParen # rest) = Some (meal_atom ms, rest)"
  by (simp add: atom_def colref_def reserved_words_def parse_literals meal_atom_def)

lemma parse_head:
  "select_columns (TIdent ''r'' # TDot # TIdent ''recipe_name'' # TIdent ''from'' # rest) =
     Some (Cols [(Some ''r'', ''recipe_name'')], TIdent ''from'' # rest)"
  by (simp add: select_columns_def sep1.simps colref_def reserved_words_def)

lemma parse_joins:
  "many join_clause
     (TIdent ''join'' # TIdent ''quantity'' # TIdent ''q'' # TIdent ''on'' #
       TIdent ''r'' # TDot # TIdent ''recipe_id'' # TEq # TIdent ''q'' # TDot # TIdent ''recipe_id'' #
      TIdent ''join'' # TIdent ''ingredients'' # TIdent ''i'' # TIdent ''on'' #
       TIdent ''q'' # TDot # TIdent ''ingredient_id'' # TEq # TIdent ''i'' # TDot #
       TIdent ''ingredient_id'' #
      TIdent ''join'' # TIdent ''serve'' # TIdent ''s'' # TIdent ''on'' #
       TIdent ''r'' # TDot # TIdent ''recipe_id'' # TEq # TIdent ''s'' # TDot # TIdent ''recipe_id'' #
      TIdent ''join'' # TIdent ''meals'' # TIdent ''m'' # TIdent ''on'' #
       TIdent ''s'' # TDot # TIdent ''meal_id'' # TEq # TIdent ''m'' # TDot # TIdent ''meal_id'' #
      TIdent ''where'' # rest) =
   Some (search_joins, TIdent ''where'' # rest)"
  by (simp add: many.simps join_clause_def table_alias_def colref_def reserved_words_def
      search_joins_def)

lemma clause_meals:
  "clause (TLParen # TIdent ''m'' # TDot # TIdent ''meal_name'' # TIdent ''in'' # TLParen #
      literal_tokens ms @ TRParen # TRParen # rest) = Some ([meal_atom ms], rest)"
  by (simp add: clause_def) (subst sep1.simps, simp add: parse_meal_atom)

lemma clause_cacao:
  "clause (TLParen # TIdent ''i'' # TDot # TIdent ''ingredient_name'' # TEq # TStr x # TRParen #
      rest) = Some ([ingredient_atom x], rest)"
  by (simp add: clause_def) (subst sep1.simps, simp add: atom_test)

lemma clause_tests:
  "is \<noteq> [] \<Longrightarrow>
   clause (TLParen # test_tokens is @ TRParen # rest) = Some (map ingredient_atom is, rest)"
  by (simp add: clause_def parse_tests)

lemma clause_no_tests: "clause (TLParen # TRParen # rest) = None"
  by (simp add: clause_def parse_no_tests)

lemma where_single:
  "where_clause (TIdent ''where'' # TLParen # TIdent ''i'' # TDot # TIdent ''ingredient_name'' #
      TEq # TStr x # TRParen # TIdent ''and'' # TLParen # TIdent ''m'' # TDot #
      TIdent ''meal_name'' # TIdent ''in'' # TLParen # literal_tokens ms @ TRParen # TRParen #
      TIdent ''group'' # rest) =
   Some ([[ingredient_atom x], [meal_atom ms]], TIdent ''group'' # rest)"
  by (simp add: where_clause_def sep1.simps [of clause] clause_cacao clause_meals)

lemma where_multi:
  "is \<noteq> [] \<Longrightarrow>
   where_clause (TIdent ''where'' # TLParen # test_tokens is @ TRParen # TIdent ''and'' #
      TLParen # TIdent ''m'' # TDot # TIdent ''meal_name'' # TIdent ''in'' # TLParen #
      literal_tokens ms @ TRParen # TRParen # TIdent ''group'' # rest) =
   Some ([map ingredient_atom is, [meal_atom ms]], TIdent ''group'' # rest)"
  by (simp add: where_clause_def sep1.simps [of clause] clause_tests clause_meals)

lemma where_multi_empty:
  "where_clause (TIdent ''where'' # TLParen # TRParen # rest) = None"
  by (simp add: where_clause_def sep1.simps [of clause] clause_no_tests)

lemma parse_single:
  assumes "list_all plain ms"
  shows "parse (single_head @ str_join '','' (map quoted ms) @ single_tail) = Some (single_stmt ms)"
  by (simp add: parse_def tokens_single [OF assms] single_head_tokens_def statement_def
      select_stmt_def parse_head parse_joins table_alias_def reserved_words_def
      where_single group_by_def having_def colref_def single_stmt_def)

lemma parse_multi:
  assumes "list_all plain is" "list_all plain ms" "is \<noteq> []"
  shows "parse (multi_head @ str_join '' OR '' (map ingredient_test is) @ multi_mid @
      str_join '','' (map quoted ms) @ multi_having @ str_nat n @ multi_tail) =
    Some (multi_stmt is ms n)"
  by (simp add: parse_def tokens_multi [OF assms(1,2)] multi_head_tokens_def statement_def
      select_stmt_def parse_head parse_joins table_alias_def reserved_words_def
      where_multi [OF assms(3)] group_by_def having_def colref_def multi_stmt_def
      nat_of_digits_str_nat)

lemma parse_multi_empty:
  assumes "list_all plain ms"
  shows "parse (multi_head @ multi_mid @
      str_join '','' (map quoted ms) @ multi_having @ str_nat n @ multi_tail) = None"
  using tokens_multi [of "[]" ms n] assms
  by (simp add: parse_def multi_head_tokens_def statement_def
      select_stmt_def parse_head parse_joins table_alias_def reserved_words_def
      where_multi_empty)

subsection \<open>The joined rows\<close>

lemma has_schema_tables:
  assumes "has_schema db"
  shows "map_of db ''recipes'' = Some (table_of db ''recipes'')"
    and "map_of db ''quantity'' = Some (table_of db ''quantity'')"
    and "map_of db ''ingredients'' = Some (table_of db ''ingredients'')"
    and "map_of db ''serve'' = Some (table_of db ''serve'')"
    and "map_of db ''meals'' = Some (table_of db ''meals'')"
    and "col_names (table_of db ''recipes'') = [''recipe_id'', ''recipe_name'', ''recipe_description'']"
    and "col_names (table_of db ''quantity'') =
      [''quantity_id'', ''quantity'', ''recipe_id'', ''measure_id'', ''ingredient_id'']"
    and "col_names (table_of db ''ingredients'') = [''ingredient_id'', ''ingredient_name'']"
    and "col_names (table_of db ''serve'') = [''serve_id'', ''recipe_id'', ''meal_id'']"
    and "col_names (table_of db ''meals'') = [''meal_id'', ''meal_name'']"
  using assms
  by (auto simp: has_schema_def schema_def table_of_def col_names_def meals_table_def
      ingredients_table_def measures_table_def recipes_table_def serve_table_def
      quantity_table_def plain_column_def)

lemma rows_table_of: "rows (table_of db t) = table_rows db t"
  by (simp add: table_of_def table_rows_def split: option.splits)

lemma search_join_scope:
  assumes "has_schema db"
  shows "join_scope db [(''r'', [''recipe_id'', ''recipe_name'', ''recipe_description''])]
           search_joins = Some search_scope"
  by (simp add: search_joins_def has_schema_tables [OF assms] search_scope_def)

lemma search_joined:
  assumes "has_schema db"
  shows "concat (map (\<lambda>r. joined db [(''r'', [''recipe_id'', ''recipe_name'', ''recipe_description''])]
            [r] search_joins) (table_rows db ''recipes'')) = search_rows db"
  by (simp add: search_joins_def has_schema_tables [OF assms] search_rows_def at_def env_row_def
      rows_table_of eval_nat_numeral)

subsection \<open>Running the search statements\<close>

lemma at_search_scope:
  "at search_scope e (Some ''r'', ''recipe_name'') = recipe_name_of e"
  "at search_scope e (Some ''i'', ''ingredient_name'') = ingredient_name_of e"
  "at search_scope e (Some ''m'', ''meal_name'') = meal_name_of e"
  by (simp_all add: at_def search_scope_def recipe_name_of_def ingredient_name_of_def
      meal_name_of_def eval_nat_numeral)

lemma find_col_search_scope:
  "find_col search_scope (Some ''r'', ''recipe_name'') = Some (0, 1)"
  "find_col search_scope (Some ''i'', ''ingredient_name'') = Some (2, 1)"
  "find_col search_scope (Some ''m'', ''meal_name'') = Some (4, 1)"
  by (simp_all add: search_scope_def eval_nat_numeral)

lemma sql_eq_text: "sql_eq a (VText x) \<longleftrightarrow> a = VText x"
  by (auto simp: sql_eq_def)

lemma atom_true_ingredient:
  "atom_true search_scope e (ingredient_atom x) \<longleftrightarrow> ingredient_name_of e = VText x"
  by (simp add: ingredient_atom_def at_search_scope sql_eq_text)

lemma atom_true_meal:
  "atom_true search_scope e (meal_atom ms) \<longleftrightarrow> meal_name_of e \<in> VText ` set ms"
  by (auto simp: meal_atom_def at_search_scope sql_eq_text list_ex_iff)

lemma cond_true_multi:
  "cond_true search_scope [map ingredient_atom is, [meal_atom ms]] =
     (\<lambda>e. ingredient_name_of e \<in> VText ` set is \<and> meal_name_of e \<in> VText ` set ms)"
  by (rule ext) (auto simp: cond_true_def list_ex_iff atom_true_ingredient atom_true_meal)

lemma cond_true_single:
  "cond_true search_scope [[ingredient_atom x], [meal_atom ms]] =
     (\<lambda>e. ingredient_name_of e \<in> VText ` set [x] \<and> meal_name_of e \<in> VText ` set ms)"
  using cond_true_multi [of "[x]" ms] by simp

lemma cond_ok_search:
  "cond_ok search_scope [map ingredient_atom is, [meal_atom ms]]"
  by (simp add: cond_ok_def list_all_iff ingredient_atom_def meal_atom_def find_col_search_scope
      del: find_col.simps)

lemma bind_literals: "bind_operands ps (map (\<lambda>m. Lit (VText m)) ms) = Inr (map (\<lambda>m. Lit (VText m)) ms)"
  by (induction ms) simp_all

lemma bind_ingredient_atoms: "bind_clause ps (map ingredient_atom is) = Inr (map ingredient_atom is)"
  by (induction "is") (simp_all add: ingredient_atom_def)

lemma bind_meal_atom: "bind_atom ps (meal_atom ms) = Inr (meal_atom ms)"
  by (simp add: meal_atom_def bind_literals)

lemma bind_multi: "bind ps (multi_stmt is ms n) = Inr (multi_stmt is ms n)"
  by (simp add: multi_stmt_def bind_ingredient_atoms bind_meal_atom)

lemma bind_single: "bind ps (single_stmt ms) = Inr (single_stmt ms)"
  using bind_ingredient_atoms [of ps "[''cacao'']"]
  by (simp add: single_stmt_def bind_meal_atom)

lemma resolves_multi:
  assumes "has_schema db"
  shows "resolves db (multi_stmt is ms n)"
  using cond_ok_search [of "is" ms]
  by (simp add: multi_stmt_def has_schema_tables [OF assms] search_join_scope [OF assms]
      find_col_search_scope list_all_iff del: find_col.simps)

lemma resolves_single:
  assumes "has_schema db"
  shows "resolves db (single_stmt ms)"
  using cond_ok_search [of "[''cacao'']" ms]
  by (simp add: single_stmt_def has_schema_tables [OF assms] search_join_scope [OF assms]
      find_col_search_scope list_all_iff del: find_col.simps)

lemma run_multi:
  assumes "has_schema db"
  shows "run fk db (multi_stmt is ms n) =
    Inr (map (\<lambda>grp. [recipe_name_of (last grp)])
          (filter (\<lambda>grp. length (remdups (filter (\<lambda>v. v \<noteq> VNull) (map ingredient_name_of grp))) = n)
             (map (\<lambda>v. filter (\<lambda>e. recipe_name_of e = v) (matching db is ms))
                (remdups (map recipe_name_of (matching db is ms))))), db)"
  using search_joined [OF assms]
  by (simp add: multi_stmt_def run_select_def has_schema_tables [OF assms]
      search_join_scope [OF assms] rows_table_of grouped_def count_distinct_def at_search_scope
      cond_true_multi matching_def)

lemma run_single:
  assumes "has_schema db"
  shows "run fk db (single_stmt ms) =
    Inr (map (\<lambda>grp. [recipe_name_of (last grp)])
          (map (\<lambda>v. filter (\<lambda>e. meal_name_of e = v) (matching db [''cacao''] ms))
             (remdups (map meal_name_of (matching db [''cacao''] ms)))), db)"
  using search_joined [OF assms]
  by (simp add: single_stmt_def run_select_def has_schema_tables [OF assms]
      search_join_scope [OF assms] rows_table_of grouped_def at_search_scope
      cond_true_single matching_def)

subsection \<open>What a recipe contains and where it is served\<close>

lemma in_search_rows:
  "e \<in> set (search_rows db) \<longleftrightarrow>
    (\<exists>r\<in>set (table_rows db ''recipes''). \<exists>q\<in>set (table_rows db ''quantity'').
     \<exists>i\<in>set (table_rows db ''ingredients''). \<exists>s\<in>set (table_rows db ''serve'').
     \<exists>m\<in>set (table_rows db ''meals'').
       e = [r, q, i, s, m] \<and> sql_eq (cell r 0) (cell q 2) \<and> sql_eq (cell q 4) (cell i 0) \<and>
       sql_eq (cell r 0) (cell s 1) \<and> sql_eq (cell s 2) (cell m 0))"
  unfolding search_rows_def
  by (simp add: image_iff Bex_def) blast

lemma env_accessors [simp]:
  "recipe_name_of [r, q, i, s, m] = cell r 1"
  "ingredient_name_of [r, q, i, s, m] = cell i 1"
  "meal_name_of [r, q, i, s, m] = cell m 1"
  by (simp_all add: recipe_name_of_def ingredient_name_of_def meal_name_of_def env_row_def)


subsection \<open>No NUL character in the query text\<close>

lemma str_join_chars:
  "c \<in> set (str_join sep xs) \<Longrightarrow> c \<in> set sep \<or> (\<exists>x\<in>set xs. c \<in> set x)"
  by (induction sep xs rule: str_join.induct) auto

lemma digit_not_nul: "classify c = Digit \<Longrightarrow> c \<noteq> CHR 0x00"
  by (auto simp: classify_def)

lemma str_nat_no_nul: "CHR 0x00 \<notin> set (str_nat n)"
  using str_nat_digits [of n] digit_not_nul by (auto simp: list_all_iff)

lemma quoted_no_nul:
  "list_all plain ms \<Longrightarrow> CHR 0x00 \<notin> set (str_join '','' (map quoted ms))"
  by (auto dest!: str_join_chars simp: list_all_iff plain_def quoted_def)

lemma tests_no_nul:
  "list_all plain is \<Longrightarrow> CHR 0x00 \<notin> set (str_join '' OR '' (map ingredient_test is))"
  by (auto dest!: str_join_chars simp: list_all_iff plain_def ingredient_test_def)

lemma single_no_nul:
  "list_all plain ms \<Longrightarrow>
   CHR 0x00 \<notin> set (single_head @ str_join '','' (map quoted ms) @ single_tail)"
  using quoted_no_nul [of ms] by (simp add: single_head_def single_tail_def)

lemma multi_no_nul:
  "list_all plain is \<Longrightarrow> list_all plain ms \<Longrightarrow>
   CHR 0x00 \<notin> set (multi_head @ str_join '' OR '' (map ingredient_test is) @ multi_mid @
      str_join '','' (map quoted ms) @ multi_having @ str_nat n @ multi_tail)"
  using quoted_no_nul [of ms] tests_no_nul [of "is"] str_nat_no_nul [of n]
  by (simp add: multi_head_def multi_mid_def multi_having_def multi_tail_def)

subsection \<open>Groups\<close>

lemma last_of_group:
  assumes "v \<in> key ` set es"
  shows "last (filter (\<lambda>e. key e = v) es) \<in> set es \<and> key (last (filter (\<lambda>e. key e = v) es)) = v"
proof -
  from assms have "filter (\<lambda>e. key e = v) es \<noteq> []"
    by (auto simp: filter_empty_conv)
  then have "last (filter (\<lambda>e. key e = v) es) \<in> set (filter (\<lambda>e. key e = v) es)"
    by (rule last_in_set)
  then show ?thesis by simp
qed

lemma group_rows_having:
  "map (\<lambda>g. [key (last g)])
     (filter P (map (\<lambda>v. filter (\<lambda>e. key e = v) es) (remdups (map key es)))) =
   map (\<lambda>v. [v]) (filter (\<lambda>v. P (filter (\<lambda>e. key e = v) es)) (remdups (map key es)))"
proof -
  have "map (\<lambda>g. [key (last g)])
     (filter P (map (\<lambda>v. filter (\<lambda>e. key e = v) es) (remdups (map key es)))) =
    map (\<lambda>v. [key (last (filter (\<lambda>e. key e = v) es))])
      (filter (\<lambda>v. P (filter (\<lambda>e. key e = v) es)) (remdups (map key es)))"
    by (simp add: filter_map o_def)
  also have "\<dots> = map (\<lambda>v. [v]) (filter (\<lambda>v. P (filter (\<lambda>e. key e = v) es)) (remdups (map key es)))"
    by (rule map_cong) (auto simp: last_of_group)
  finally show ?thesis .
qed

lemma first_column_texts:
  "list_all is_text vs \<Longrightarrow> first_column (map (\<lambda>v. [v]) vs) = Inr (map text_of vs)"
proof (induction vs)
  case Nil
  show ?case by simp
next
  case (Cons v vs)
  then show ?case by (cases v) simp_all
qed

lemma first_column_picks:
  "list_all (\<lambda>v. is_text (f v)) vs \<Longrightarrow>
   first_column (map (\<lambda>v. [f v]) vs) = Inr (map (\<lambda>v. text_of (f v)) vs)"
  using first_column_texts [of "map f vs"] by (simp add: list_all_iff o_def)

subsection \<open>Executing the two search statements\<close>

lemma execute_multi:
  assumes "has_schema db" "list_all plain is" "list_all plain ms" "is \<noteq> []"
  shows "execute c (multi_head @ str_join '' OR '' (map ingredient_test is) @ multi_mid @
      str_join '','' (map quoted ms) @ multi_having @ str_nat n @ multi_tail) [] (w, db) =
    (Inr (map (\<lambda>v. [v])
       (filter (\<lambda>v. length (remdups (filter (\<lambda>v. v \<noteq> VNull)
            (map ingredient_name_of (filter (\<lambda>e. recipe_name_of e = v) (matching db is ms))))) = n)
          (remdups (map recipe_name_of (matching db is ms))))),
     logged (multi_head @ str_join '' OR '' (map ingredient_test is) @ multi_mid @
      str_join '','' (map quoted ms) @ multi_having @ str_nat n @ multi_tail) [[]] w, db)"
  using multi_no_nul [OF assms(2,3), of n]
    group_rows_having [of recipe_name_of
      "\<lambda>grp. length (remdups (filter (\<lambda>v. v \<noteq> VNull) (map ingredient_name_of grp))) = n"
      "matching db is ms"]
  by (simp add: execute_def prepare_def parse_multi [OF assms(2,3,4)] resolves_multi [OF assms(1)]
      bind_multi run_multi [OF assms(1)] del: run.simps)

lemma execute_single:
  assumes "has_schema db" "list_all plain ms"
  shows "execute c (single_head @ str_join '','' (map quoted ms) @ single_tail) [] (w, db) =
    (Inr (map (\<lambda>v. [recipe_name_of (last (filter (\<lambda>e. meal_name_of e = v)
              (matching db [''cacao''] ms)))])
          (remdups (map meal_name_of (matching db [''cacao''] ms)))),
     logged (single_head @ str_join '','' (map quoted ms) @ single_tail) [[]] w, db)"
  using single_no_nul [OF assms(2)]
  by (simp add: execute_def prepare_def parse_single [OF assms(2)] resolves_single [OF assms(1)]
      bind_single run_single [OF assms(1)] o_def del: run.simps)

lemma execute_multi_empty:
  assumes "list_all plain ms"
  shows "execute c (multi_head @ multi_mid @
      str_join '','' (map quoted ms) @ multi_having @ str_nat n @ multi_tail) [] (w, db) =
    (Inl OperationalError,
     logged (multi_head @ multi_mid @
      str_join '','' (map quoted ms) @ multi_having @ str_nat n @ multi_tail) [[]] w, db)"
  using multi_no_nul [of "[]" ms n] assms
  by (simp add: execute_def prepare_def parse_multi_empty [OF assms])

subsection \<open>The result of the search\<close>

lemma find_recipes_file:
  assumes "db_name w \<noteq> []" "db_name w \<noteq> '':memory:''"
  shows "find_recipes w conn args =
    find_recipes_body (logged probe_text [[]] w)
      \<lparr>target = File (db_name w), closed = False, foreign_keys = False\<rparr> args"
  using assms by (simp add: find_recipes_def db_connect_fresh connection_file)

lemma is_text_iff: "is_text v \<longleftrightarrow> (\<exists>s. v = VText s)"
  by (cases v) simp_all

lemma named_search_rows:
  assumes "named_recipes db" "e \<in> set (search_rows db)"
  shows "is_text (recipe_name_of e)"
  using assms unfolding in_search_rows named_recipes_def list_all_iff by auto

lemma named_matching:
  assumes "named_recipes db" "e \<in> set (matching db is ms)"
  shows "is_text (recipe_name_of e)"
  using assms named_search_rows by (auto simp: matching_def)

lemma find_recipes_multi_result:
  assumes "db_name w \<noteq> []" "db_name w \<noteq> '':memory:''"
    and "has_schema (stores w (File (db_name w)))"
    and "named_recipes (stores w (File (db_name w)))"
    and "list_all plain is" "list_all plain ms" "2 \<le> length is"
  shows "fst (find_recipes w conn [PyList is, PyList ms]) =
    Inr (RStr (str_join '', '' (multi_names (stores w (File (db_name w))) is ms)))"
proof -
  let ?db = "stores w (File (db_name w))"
  let ?vs = "filter (\<lambda>v. length (remdups (filter (\<lambda>v. v \<noteq> VNull)
      (map ingredient_name_of (filter (\<lambda>e. recipe_name_of e = v) (matching ?db is ms))))) =
        length is)
    (remdups (map recipe_name_of (matching ?db is ms)))"
  from assms(7) have ne: "is \<noteq> []" and n1: "length is \<noteq> Suc 0" by auto
  have "list_all is_text ?vs"
    using named_matching [OF assms(4)] by (auto simp: list_all_iff)
  then have fc: "first_column (map (\<lambda>v. [v]) ?vs) = Inr (map text_of ?vs)"
    by (rule first_column_texts)
  show ?thesis
    using n1 fc
    by (simp add: find_recipes_file [OF assms(1,2)] find_recipes_body_def find_recipes_query_def
        reading_def cursor_def execute_multi [OF assms(3,5,6) ne] multi_names_def)
qed

lemma find_recipes_single_result:
  assumes "db_name w \<noteq> []" "db_name w \<noteq> '':memory:''"
    and "has_schema (stores w (File (db_name w)))"
    and "named_recipes (stores w (File (db_name w)))"
    and "list_all plain ms"
  shows "fst (find_recipes w conn [PyList [x], PyList ms]) =
    Inr (RStr (str_join '', ''
      (map (\<lambda>v. text_of (recipe_name_of (single_pick (stores w (File (db_name w))) ms v)))
         (single_meals (stores w (File (db_name w))) ms))))"
proof -
  let ?db = "stores w (File (db_name w))"
  have "list_all (\<lambda>v. is_text (recipe_name_of (single_pick ?db ms v))) (single_meals ?db ms)"
    unfolding list_all_iff
  proof
    fix v assume "v \<in> set (single_meals ?db ms)"
    then have "v \<in> meal_name_of ` set (matching ?db [''cacao''] ms)"
      by (simp add: single_meals_def)
    from last_of_group [OF this] have "single_pick ?db ms v \<in> set (matching ?db [''cacao''] ms)"
      by (simp add: single_pick_def)
    then show "is_text (recipe_name_of (single_pick ?db ms v))"
      by (rule named_matching [OF assms(4)])
  qed
  then have fc: "first_column (map (\<lambda>v. [recipe_name_of (single_pick ?db ms v)])
      (single_meals ?db ms)) =
    Inr (map (\<lambda>v. text_of (recipe_name_of (single_pick ?db ms v))) (single_meals ?db ms))"
    by (rule first_column_picks)
  show ?thesis
    using fc
    by (simp add: find_recipes_file [OF assms(1,2)] find_recipes_body_def find_recipes_query_def
        reading_def cursor_def execute_single [OF assms(3,5)] single_pick_def single_meals_def)
qed

lemma find_recipes_no_ingredients:
  assumes "list_all plain ms"
  shows "fst (find_recipes w conn [PyList [], PyList ms]) = Inl OperationalError"
  by (auto simp: find_recipes_def db_connect_fresh find_recipes_body_def find_recipes_query_def
      reading_def cursor_def execute_multi_empty [OF assms] split: prod.splits
      dest: connection_facts)






subsection \<open>The statements handed to the engine\<close>

lemma execute_trace:
  "trace (fst (snd (execute c q ps (w, db)))) = trace w @ [(q, [ps])]"
  by (simp add: execute_def split: sum.splits prod.splits)

lemma executemany_trace:
  "trace (fst (snd (executemany c q pss (w, db)))) = trace w @ [(q, pss)]"
  by (simp add: executemany_def split: sum.splits prod.splits)

lemma write_one_trace:
  "\<not> closed c \<Longrightarrow> trace (snd (write_one w c q ps)) = trace w @ [(q, [ps])]"
  using execute_trace [of c q ps w "stores w (target c)"]
  by (auto simp: write_one_def with_conn_def cursor_def returning_none_def
      split: sum.splits prod.splits)

lemma select_db_trace:
  assumes "attribute_conf t = Some col"
  shows "statements w (snd (select_db w conn [PyStr t, v])) =
    [(probe_text, [[]]),
     (''SELECT * FROM '' @ t @ '' WHERE '' @ col @ '' = :value;'', [[(''value'', v)]])]"
proof -
  obtain c w' where c: "connection (logged probe_text [[]] w) (db_name w) = (c, w')"
    by (cases "connection (logged probe_text [[]] w) (db_name w)")
  from connection_facts [OF c] have open_c: "\<not> closed c"
    and tr: "trace w' = trace w @ [(probe_text, [[]])]"
    by simp_all
  show ?thesis
    using assms open_c tr
      execute_trace [of c "''SELECT * FROM '' @ t @ '' WHERE '' @ col @ '' = :value;''"
        "[(''value'', v)]" w' "stores w' (target c)"]
    by (auto simp: select_db_def db_connect_fresh c select_db_body_def reading_def cursor_def
        statements_def split: sum.splits prod.splits)
qed

lemma insert_ingredient_measure_trace:
  assumes "attribute_conf t = Some col"
  shows "statements w (snd (insert_ingredient_measure w conn [PyStr t, v])) =
    [(probe_text, [[]]),
     (''INSERT INTO '' @ t @ ''('' @ col @ '') VALUES (:value);'', [[(''value'', v)]])]"
proof -
  obtain c w' where c: "connection (logged probe_text [[]] w) (db_name w) = (c, w')"
    by (cases "connection (logged probe_text [[]] w) (db_name w)")
  from connection_facts [OF c] have open_c: "\<not> closed c"
    and tr: "trace w' = trace w @ [(probe_text, [[]])]"
    by simp_all
  show ?thesis
    using assms tr write_one_trace [OF open_c, of w'
        "''INSERT INTO '' @ t @ ''('' @ col @ '') VALUES (:value);''" "[(''value'', v)]"]
    by (simp add: insert_ingredient_measure_def db_connect_fresh c
        insert_ingredient_measure_body_def statements_def)
qed

lemma insert_many_db_trace:
  assumes "attribute_conf t = Some col" "py_iter v = Inr vs"
  shows "statements w (snd (insert_many_db w conn [PyStr t, v])) =
    [(probe_text, [[]]),
     (''INSERT INTO '' @ t @ '' ('' @ col @ '') VALUES (:value);'',
      map (\<lambda>x. [(''value'', PyStr x)]) vs)]"
proof -
  obtain c w' where c: "connection (logged probe_text [[]] w) (db_name w) = (c, w')"
    by (cases "connection (logged probe_text [[]] w) (db_name w)")
  from connection_facts [OF c] have open_c: "\<not> closed c"
    and tr: "trace w' = trace w @ [(probe_text, [[]])]"
    by simp_all
  show ?thesis
    using assms open_c tr
      executemany_trace [of c "''INSERT INTO '' @ t @ '' ('' @ col @ '') VALUES (:value);''"
        "map (\<lambda>x. [(''value'', PyStr x)]) vs" w' "stores w' (target c)"]
    by (auto simp: insert_many_db_def db_connect_fresh c insert_many_db_body_def with_conn_def
        cursor_def returning_none_def statements_def split: sum.splits prod.splits)
qed



lemma db_remove_trace:
  "statements w (snd (db_remove w conn args)) = [(probe_text, [[]])]"
  by (auto simp: db_remove_def db_connect_fresh db_remove_body_def statements_def
      split: prod.splits dest: connection_facts)

lemma unsupported_trace:
  assumes "attribute_conf t = None"
  shows "statements w (snd (select_db w conn [PyStr t, v])) = [(probe_text, [[]])]"
    and "statements w (snd (insert_ingredient_measure w conn [PyStr t, v])) = [(probe_text, [[]])]"
    and "statements w (snd (insert_many_db w conn [PyStr t, v])) = [(probe_text, [[]])]"
  by (simp_all add: unsupported [OF assms] statements_def connection_trace)

lemma value_bound:
  assumes "py_iter v1 = Inr xs1" "py_iter v2 = Inr xs2"
  shows "map fst (statements w (snd (select_db w conn [PyStr t, v1]))) =
         map fst (statements w (snd (select_db w conn [PyStr t, v2])))"
    and "map fst (statements w (snd (insert_ingredient_measure w conn [PyStr t, v1]))) =
         map fst (statements w (snd (insert_ingredient_measure w conn [PyStr t, v2])))"
    and "map fst (statements w (snd (insert_many_db w conn [PyStr t, v1]))) =
         map fst (statements w (snd (insert_many_db w conn [PyStr t, v2])))"
    and "map fst (statements w (snd (db_remove w conn [PyStr t, v1]))) =
         map fst (statements w (snd (db_remove w conn [PyStr t, v2])))"
proof -
  show "map fst (statements w (snd (select_db w conn [PyStr t, v1]))) =
         map fst (statements w (snd (select_db w conn [PyStr t, v2])))"
    by (cases "attribute_conf t") (simp_all add: unsupported_trace select_db_trace)
  show "map fst (statements w (snd (insert_ingredient_measure w conn [PyStr t, v1]))) =
         map fst (statements w (snd (insert_ingredient_measure w conn [PyStr t, v2])))"
    by (cases "attribute_conf t")
      (simp_all add: unsupported_trace insert_ingredient_measure_trace)
  show "map fst (statements w (snd (insert_many_db w conn [PyStr t, v1]))) =
         map fst (statements w (snd (insert_many_db w conn [PyStr t, v2])))"
    using assms
    by (cases "attribute_conf t") (simp_all add: unsupported_trace insert_many_db_trace)
  show "map fst (statements w (snd (db_remove w conn [PyStr t, v1]))) =
         map fst (statements w (snd (db_remove w conn [PyStr t, v2])))"
    by (simp add: db_remove_trace)
qed

subsection \<open>Examples\<close>








lemma matching_no_meals: "matching db is [] = []"
  by (simp add: matching_def)

lemma find_recipes_no_meals:
  assumes "db_name w \<noteq> []" "db_name w \<noteq> '':memory:''"
    and "has_schema (stores w (File (db_name w)))"
    and "named_recipes (stores w (File (db_name w)))"
    and "list_all plain is" "is \<noteq> []"
  shows "fst (find_recipes w conn [PyList is, PyList []]) = Inr (RStr [])"
proof (cases "length is = 1")
  case True
  then obtain x where "is = [x]" by (cases "is") auto
  then show ?thesis
    using find_recipes_single_result [OF assms(1-4), of "[]" conn x]
    by (simp add: single_meals_def matching_no_meals)
next
  case False
  with assms(6) have "2 \<le> length is" by (cases "is") (auto simp: Suc_le_eq)
  then show ?thesis
    using find_recipes_multi_result [OF assms(1-5), of "[]" conn]
    by (simp add: multi_names_def matching_no_meals)
qed



section \<open>Properties\<close>

text \<open>
  C1. The claim: an insert of a Serve or Quantity row that references a recipe, meal,
  measure or ingredient id absent from the referenced table fails with a constraint
  violation and adds no row. The code: the decorator means to switch foreign keys on,
  but calls \<^verbatim>\<open>conn.excecute\<close>, which no connection has, so every decorated function runs
  on a fresh connection with SQLite's default, foreign keys off. With no recipe in the
  store, \<^verbatim>\<open>insert_to_serve(conn, 9999, 1)\<close> returns normally and the serve table holds the
  row; so does a quantity row with three dangling ids. The same body on a connection that
  has foreign keys on raises IntegrityError.
\<close>

theorem insert_to_serve_dangling:
  "fst (insert_to_serve (blog seeded) conn [PyInt 9999, PyInt 1]) = Inr RNone \<and>
   map_of (blog_db (snd (insert_to_serve (blog seeded) conn [PyInt 9999, PyInt 1]))) ''serve'' =
     Some (serve_table\<lparr>rows := [[VInt 1, VInt 9999, VInt 1]], seq := 1\<rparr>) \<and>
   map_of (blog_db (snd (insert_to_serve (blog seeded) conn [PyInt 9999, PyInt 1]))) ''recipes'' =
     Some recipes_table \<and>
   fst (insert_to_quantity (blog seeded) conn
     [PyStr ''quantity'', PyInt 2, PyInt 9999, PyInt 8888, PyInt 7777]) = Inr RNone \<and>
   table_rows (blog_db (snd (insert_to_quantity (blog seeded) conn
     [PyStr ''quantity'', PyInt 2, PyInt 9999, PyInt 8888, PyInt 7777]))) ''quantity'' =
     [[VInt 1, VInt 2, VInt 9999, VInt 8888, VInt 7777]] \<and>
   fst (insert_to_serve_body (blog seeded) (handle\<lparr>foreign_keys := True\<rparr>)
     [PyInt 9999, PyInt 1]) = Inl IntegrityError"
  using parse_insert_quantity
  by (simp add: insert_to_serve_def insert_to_quantity_def db_connect_fresh connection_file
      insert_to_serve_body_def insert_to_quantity_body_def parse_insert_serve engine_defs
      schema_defs blog_db_def table_rows_def handle_def)

text \<open>
  C2. The claim: \<^verbatim>\<open>insert_db(conn, table, value)\<close> succeeds for every supported table and
  a following \<^verbatim>\<open>select_db\<close> finds the row. The code: the statement text is
  \<^verbatim>\<open>INSERT INTO (<column>) VALUES (:value);\<close>, with no table name, which SQLite rejects as
  a syntax error; the sibling \<^verbatim>\<open>insert_ingredient_measure\<close> writes the table name. So for
  each of the four supported tables and every value and store the call raises
  OperationalError, and after \<^verbatim>\<open>insert_db(conn, "meals", "brunch")\<close> on the seeded store
  \<^verbatim>\<open>select_db(conn, "meals", "brunch")\<close> returns \<open>None\<close>.
\<close>

theorem insert_db_syntax_error:
  "fst (insert_db w conn [PyStr ''meals'', v]) = Inl OperationalError \<and>
   fst (insert_db w conn [PyStr ''ingredients'', v]) = Inl OperationalError \<and>
   fst (insert_db w conn [PyStr ''measures'', v]) = Inl OperationalError \<and>
   fst (insert_db w conn [PyStr ''recipes'', v]) = Inl OperationalError \<and>
   fst (select_db (snd (insert_db (blog seeded) conn [PyStr ''meals'', PyStr ''brunch'']))
     conn [PyStr ''meals'', PyStr ''brunch'']) = Inr RNone"
proof -
  have "fst (insert_db w conn [PyStr ''meals'', v]) = Inl OperationalError"
    "fst (insert_db w conn [PyStr ''ingredients'', v]) = Inl OperationalError"
    "fst (insert_db w conn [PyStr ''measures'', v]) = Inl OperationalError"
    "fst (insert_db w conn [PyStr ''recipes'', v]) = Inl OperationalError"
    by (auto simp: insert_db_def db_connect_fresh insert_db_body_def attribute_conf_def
        attribute_columns_def write_one_def with_conn_def cursor_def returning_none_def
        execute_def prepare_def parse_insert_db split: prod.splits dest: connection_facts)
  moreover have "fst (select_db (snd (insert_db (blog seeded) conn [PyStr ''meals'', PyStr ''brunch'']))
     conn [PyStr ''meals'', PyStr ''brunch'']) = Inr RNone"
    by (simp add: insert_db_def select_db_def db_connect_fresh connection_file insert_db_body_def
        select_db_body_def attribute_conf_def attribute_columns_def parse_insert_db
        parse_select_brunch fetchone_def engine_defs schema_defs)
  ultimately show ?thesis by simp
qed

text \<open>
  C3. The claim: \<^verbatim>\<open>db_remove(conn, table, value)\<close>, called with exactly those two
  arguments, deletes the rows whose name column equals the value. The code: the function
  first requires three arguments and then unpacks two, so it raises ValueError on every
  argument list (the arity error for two arguments, the unpacking error for three) and
  no store file changes.
\<close>

theorem db_remove_always_raises:
  "fst (db_remove w conn [table_name, attribute_value]) = Inl (ValueError Arity) \<and>
   fst (db_remove w conn [table_name, attribute, attribute_value]) = Inl (ValueError Unpack) \<and>
   stores (snd (db_remove w conn args)) (File f) = stores w (File f) \<and>
   fst (db_remove w conn args) \<in> {Inl (ValueError Arity), Inl (ValueError Unpack)}"
  by (simp add: db_remove_raises db_remove_stores)







text \<open>
  C6. With an empty list of ingredients the statement text has the empty condition
  \<open>WHERE ()\<close>, which the engine rejects: the call raises \<open>OperationalError\<close> on every
  store, whatever the meals.
\<close>

theorem find_recipes_empty_ingredients:
  assumes "list_all plain ms"
  shows "fst (find_recipes w conn [PyList [], PyList ms]) = Inl OperationalError"
  by (rule find_recipes_no_ingredients [OF assms])

theorem find_recipes_empty_ingredients_witness:
  "list_all plain [''breakfast''] \<and>
   fst (find_recipes (blog cocoa_db) handle [PyList [], PyList [''breakfast'']]) =
     Inl OperationalError \<and>
   fst (find_recipes (blog cocoa_db) handle [PyList [], PyList []]) = Inl OperationalError"
  using find_recipes_empty_ingredients [of "[''breakfast'']" "blog cocoa_db" handle]
    find_recipes_empty_ingredients [of "[]" "blog cocoa_db" handle]
  by (simp add: plain_def)

text \<open>
  C7. The claim: every generic primitive, \<^verbatim>\<open>select_all_db\<close> and the quantity insert
  included, validates its table name through the registry and raises on an unsupported
  name instead of running a query against it. That fails: \<open>serve\<close> and
  \<open>quantity\<close> are not in the registry, yet \<^verbatim>\<open>select_all_db(conn, "serve")\<close> returns the
  rows of serve and \<^verbatim>\<open>insert_to_quantity(conn, "quantity", ...)\<close> inserts.
\<close>

theorem registry_bypass:
  "attribute_conf ''serve'' = None \<and>
   fst (select_all_db (blog cocoa_db) handle [PyStr ''serve'']) =
     Inr (RRows [[VInt 1, VInt 1, VInt 1]]) \<and>
   attribute_conf ''quantity'' = None \<and>
   fst (insert_to_quantity (blog cocoa_db) handle
     [PyStr ''quantity'', PyInt 3, PyInt 1, PyInt 1, PyInt 1]) = Inr RNone"
  using parse_insert_quantity
  by (simp add: attribute_conf_def attribute_columns_def select_all_db_def insert_to_quantity_def
      db_connect_fresh connection_file select_all_db_body_def insert_to_quantity_body_def
      parse_select_all_serve engine_defs schema_defs)

text \<open>
  C7, amended. The primitives that need the name column (\<^verbatim>\<open>insert_db\<close>,
  \<^verbatim>\<open>insert_ingredient_measure\<close>, \<^verbatim>\<open>insert_many_db\<close>, \<^verbatim>\<open>select_db\<close>) look the table name
  up in the registry first: for a name the registry does not know they raise the
  unsupported-table ValueError, and the only statement the call has run is the
  decorator's probe.
\<close>

theorem unsupported_table_rejected:
  assumes "attribute_conf t = None"
  shows "fst (insert_db w conn [PyStr t, v]) = Inl (ValueError Unsupported) \<and>
         fst (insert_ingredient_measure w conn [PyStr t, v]) = Inl (ValueError Unsupported) \<and>
         fst (insert_many_db w conn [PyStr t, v]) = Inl (ValueError Unsupported) \<and>
         fst (select_db w conn [PyStr t, v]) = Inl (ValueError Unsupported) \<and>
         statements w (snd (insert_db w conn [PyStr t, v])) = [(probe_text, [[]])] \<and>
         statements w (snd (insert_ingredient_measure w conn [PyStr t, v])) =
           [(probe_text, [[]])] \<and>
         statements w (snd (insert_many_db w conn [PyStr t, v])) = [(probe_text, [[]])] \<and>
         statements w (snd (select_db w conn [PyStr t, v])) = [(probe_text, [[]])]"
  by (simp add: unsupported [OF assms] statements_def connection_trace)

theorem unsupported_table_rejected_witness:
  "attribute_conf ''serve'' = None \<and>
   fst (select_db (blog cocoa_db) handle [PyStr ''serve'', PyStr ''x'']) =
     Inl (ValueError Unsupported) \<and>
   statements (blog cocoa_db) (snd (select_db (blog cocoa_db) handle [PyStr ''serve'', PyStr ''x''])) =
     [(probe_text, [[]])]"
proof -
  have h: "attribute_conf ''serve'' = None"
    by (simp add: attribute_conf_def attribute_columns_def)
  from unsupported_table_rejected [OF h, of "blog cocoa_db" handle "PyStr ''x''"] h
  show ?thesis by simp
qed

text \<open>
  C8. The registry lookup is a total function of the table name: the four supported
  names map to their name columns, and every other string, \<open>serve\<close> among them,
  maps to \<open>None\<close>.
\<close>

theorem attribute_conf_registry:
  "attribute_conf table_name =
     (if table_name = ''meals'' then Some ''meal_name''
      else if table_name = ''ingredients'' then Some ''ingredient_name''
      else if table_name = ''measures'' then Some ''measure_name''
      else if table_name = ''recipes'' then Some ''recipe_name''
      else None)"
  by (simp add: attribute_conf_def attribute_columns_def)

theorem attribute_conf_registry_witness:
  "attribute_conf ''meals'' = Some ''meal_name'' \<and>
   attribute_conf ''ingredients'' = Some ''ingredient_name'' \<and>
   attribute_conf ''measures'' = Some ''measure_name'' \<and>
   attribute_conf ''recipes'' = Some ''recipe_name'' \<and>
   attribute_conf ''serve'' = None"
  using attribute_conf_registry [of "''meals''"] attribute_conf_registry [of "''ingredients''"]
    attribute_conf_registry [of "''measures''"] attribute_conf_registry [of "''recipes''"]
    attribute_conf_registry [of "''serve''"]
  by simp

text \<open>
  C9, as the code has it. \<^verbatim>\<open>truncate_tables(conn)\<close> is not decorated: it runs on the
  connection it is handed. On a connection with foreign keys on, over the store file with
  one recipe served at breakfast, the first \<^verbatim>\<open>DELETE\<close> is refused because a serve row
  refers to a meal: the call raises \<open>IntegrityError\<close> and the rows of meals are all
  still there.
\<close>

theorem truncate_tables_foreign_keys:
  "fst (truncate_tables (blog cocoa_db) (handle\<lparr>foreign_keys := True\<rparr>)) = Inl IntegrityError \<and>
   table_rows (stores (snd (truncate_tables (blog cocoa_db) (handle\<lparr>foreign_keys := True\<rparr>)))
     (File ''food_blog.db'')) ''meals'' = [[VInt 1, VText ''breakfast''], [VInt 2, VText ''lunch'']]"
  unfolding truncate_tables_blocked by (simp add: table_rows_def cocoa_db_def)

text \<open>
  C9, amended. On an open connection with foreign keys off to a store that has the three
  reference tables, \<^verbatim>\<open>truncate_tables(conn)\<close> returns normally; meals, ingredients and
  measures are still tables of the store, with their columns and without rows, and the
  tables recipes, serve and quantity are as they were. Every connection that
  \<^verbatim>\<open>connection\<close> returns is open and has foreign keys off.
\<close>

theorem truncate_tables_resets:
  assumes "\<not> closed c" "\<not> foreign_keys c"
    and "map_of (stores w (target c)) ''meals'' = Some M"
      "map_of (stores w (target c)) ''ingredients'' = Some I"
      "map_of (stores w (target c)) ''measures'' = Some U"
  shows "fst (truncate_tables w c) = Inr RNone \<and>
    map_of (stores (snd (truncate_tables w c)) (target c)) ''meals'' = Some (M\<lparr>rows := []\<rparr>) \<and>
    map_of (stores (snd (truncate_tables w c)) (target c)) ''ingredients'' =
      Some (I\<lparr>rows := []\<rparr>) \<and>
    map_of (stores (snd (truncate_tables w c)) (target c)) ''measures'' = Some (U\<lparr>rows := []\<rparr>) \<and>
    map_of (stores (snd (truncate_tables w c)) (target c)) ''recipes'' =
      map_of (stores w (target c)) ''recipes'' \<and>
    map_of (stores (snd (truncate_tables w c)) (target c)) ''serve'' =
      map_of (stores w (target c)) ''serve'' \<and>
    map_of (stores (snd (truncate_tables w c)) (target c)) ''quantity'' =
      map_of (stores w (target c)) ''quantity'' \<and>
    \<not> closed (fst (connection w p)) \<and> \<not> foreign_keys (fst (connection w p))"
proof -
  have h: "map_of (stores w (target c)) ''meals'' \<noteq> None"
    "map_of (stores w (target c)) ''ingredients'' \<noteq> None"
    "map_of (stores w (target c)) ''measures'' \<noteq> None"
    using assms(3-5) by simp_all
  have "\<not> closed (fst (connection w p))" "\<not> foreign_keys (fst (connection w p))"
    using connection_facts(1,2) [of w p "fst (connection w p)" "snd (connection w p)"]
    by simp_all
  then show ?thesis
    using assms(3-5)
    by (simp add: truncate_tables_result(1) [OF assms(1,2) h]
        truncate_tables_kept [OF assms(1,2) h])
qed

theorem truncate_tables_resets_witness:
  "fst (truncate_tables (blog cocoa_db) handle) = Inr RNone \<and>
   map_of (stores (snd (truncate_tables (blog cocoa_db) handle)) (target handle)) ''meals'' =
     Some meals_table \<and>
   map_of (stores (snd (truncate_tables (blog cocoa_db) handle)) (target handle)) ''serve'' =
     Some (serve_table\<lparr>rows := [[VInt 1, VInt 1, VInt 1]], seq := 1\<rparr>)"
proof -
  have h: "\<not> closed handle" "\<not> foreign_keys handle"
    "map_of (stores (blog cocoa_db) (target handle)) ''meals'' =
       Some (meals_table\<lparr>rows := [[VInt 1, VText ''breakfast''], [VInt 2, VText ''lunch'']]\<rparr>)"
    "map_of (stores (blog cocoa_db) (target handle)) ''ingredients'' =
       Some (ingredients_table\<lparr>rows :=
        [[VInt 1, VText ''milk''], [VInt 2, VText ''cacao''], [VInt 3, VText ''sugar'']]\<rparr>)"
    "map_of (stores (blog cocoa_db) (target handle)) ''measures'' =
       Some (measures_table\<lparr>rows := [[VInt 1, VText ''cup'']]\<rparr>)"
    by (simp_all add: handle_def cocoa_db_def)
  have "map_of (stores (blog cocoa_db) (target handle)) ''serve'' =
     Some (serve_table\<lparr>rows := [[VInt 1, VInt 1, VInt 1]], seq := 1\<rparr>)"
    by (simp add: handle_def cocoa_db_def)
  with truncate_tables_resets [OF h] show ?thesis
    by (simp add: meals_table_def)
qed



end
